theory Spec2Isabelle
  imports Main
begin

section \<open>Domain model (models.py)\<close>

text \<open>
  The three enumerations of \<^verbatim>\<open>models.py\<close>, with the members in the order of the source.
\<close>

datatype MembershipTier = ADHOC | WEEKLY_1 | WEEKLY_2 | UNLIMITED

datatype UserRole = PARTICIPANT | CAREGIVER | STAFF | VOLUNTEER

datatype BookingStatus = CONFIRMED | WAITLIST | CANCELLED

text \<open>
  The columns \<^verbatim>\<open>medical_flags\<close> and \<^verbatim>\<open>requirements\<close> are JSON columns: what comes
  back from the store is any JSON value, \<^verbatim>\<open>None\<close> for JSON null. A Python dict is an
  association list read with \<open>map_of\<close>. Non-integer numbers are left out.
\<close>

datatype json =
    JNull
  | JBool bool
  | JInt int
  | JStr string
  | JList "json list"
  | JDict "(string \<times> json) list"

text \<open>Python truthiness, as used by \<^verbatim>\<open>or\<close>, \<^verbatim>\<open>and\<close> and \<^verbatim>\<open>not\<close>.\<close>

fun truthy :: "json \<Rightarrow> bool" where
  "truthy JNull = False"
| "truthy (JBool b) = b"
| "truthy (JInt i) = (i \<noteq> 0)"
| "truthy (JStr s) = (s \<noteq> [])"
| "truthy (JList xs) = (xs \<noteq> [])"
| "truthy (JDict kvs) = (kvs \<noteq> [])"

text \<open>
  The errors a call can end with: a \<^verbatim>\<open>BookingError(message, error_code)\<close>, or the
  \<^verbatim>\<open>AttributeError\<close> Python raises for \<^verbatim>\<open>.get\<close> on a value that is not a dict.
\<close>

datatype error_code =
    USER_NOT_FOUND
  | ACTIVITY_NOT_FOUND
  | DUPLICATE_BOOKING
  | PAYMENT_REQUIRED
  | TOKEN_LIMIT_REACHED
  | VOLUNTEER_SLOTS_FULL
  | ACTIVITY_FULL
  | ACCESSIBILITY_MISMATCH
  | BOOKING_NOT_FOUND
  | ALREADY_CANCELLED

datatype error = BookingError string error_code | AttributeError

text \<open>\<^verbatim>\<open>d.get(key, default)\<close>.\<close>

fun py_get :: "json \<Rightarrow> string \<Rightarrow> json \<Rightarrow> error + json" where
  "py_get (JDict kvs) key dflt =
     Inr (case map_of kvs key of None \<Rightarrow> dflt | Some v \<Rightarrow> v)"
| "py_get _ key dflt = Inl AttributeError"

text \<open>
  A naive UTC \<^verbatim>\<open>datetime\<close> is the number of microseconds since 0001-01-01 00:00:00,
  which is a Monday (\<^verbatim>\<open>weekday() == 0\<close>). The upper end of Python's range (year 9999) is
  not modelled.
\<close>

type_synonym datetime = nat

text \<open>
  The rows of the three tables. Only the columns the booking service reads or writes are
  kept (email, linked account, description, end time, location and the timestamps of users
  and activities are touched by no operation here).
\<close>

record User =
  u_id :: int
  u_name :: string
  u_role :: UserRole
  u_membership_tier :: MembershipTier
  u_medical_flags :: json

record Activity =
  a_id :: int
  a_title :: string
  a_start_time :: datetime
  a_base_capacity :: int
  a_volunteer_slots :: int
  a_requirements :: json

record Booking =
  b_id :: int
  b_user_id :: int
  b_activity_id :: int
  b_status :: BookingStatus
  b_created_at :: datetime
  b_updated_at :: datetime

text \<open>
  The committed state behind a SQLAlchemy session: each table is the list of its rows in
  insertion order.
\<close>

record Session =
  users :: "User list"
  activities :: "Activity list"
  bookings :: "Booking list"

text \<open>
  A weekly token limit is a Python number: an int, or \<^verbatim>\<open>float('inf')\<close>.
\<close>

datatype number = PyInt int | PyInf

definition get_weekly_token_limit :: "User \<Rightarrow> number" where
  "get_weekly_token_limit self =
     (case u_membership_tier self of
        ADHOC \<Rightarrow> PyInt 0
      | WEEKLY_1 \<Rightarrow> PyInt 1
      | WEEKLY_2 \<Rightarrow> PyInt 2
      | UNLIMITED \<Rightarrow> PyInf)"

text \<open>
  \<^verbatim>\<open>session.query(...).join(User)\<close>: the inner join of bookings and users on the foreign
  key \<^verbatim>\<open>Booking.user_id == User.id\<close>.
\<close>

definition join_User :: "Booking list \<Rightarrow> User list \<Rightarrow> (Booking \<times> User) list" where
  "join_User bs us = [(b, u). b \<leftarrow> bs, u \<leftarrow> us, b_user_id b = u_id u]"

definition get_current_capacity :: "Activity \<Rightarrow> Session \<Rightarrow> int" where
  "get_current_capacity self session =
     (let volunteer_count =
            int (length (filter
              (\<lambda>(b, u). b_activity_id b = a_id self \<and> b_status b = CONFIRMED
                         \<and> u_role u = VOLUNTEER)
              (join_User (bookings session) (users session))))
      in a_base_capacity self + (volunteer_count * 2))"

definition get_current_attendees :: "Activity \<Rightarrow> Session \<Rightarrow> int" where
  "get_current_attendees self session =
     (let attendee_count =
            int (length (filter
              (\<lambda>(b, u). b_activity_id b = a_id self \<and> b_status b = CONFIRMED
                         \<and> u_role u \<noteq> VOLUNTEER)
              (join_User (bookings session) (users session))))
      in attendee_count)"

definition is_accessible :: "Activity \<Rightarrow> error + json" where
  "is_accessible self = py_get (a_requirements self) ''accessible'' (JBool False)"

section \<open>Booking service (booking\_service.py)\<close>

subsection \<open>Formatting numbers in messages\<close>

function str_nat :: "nat \<Rightarrow> string" where
  "str_nat n =
     (if n < 10 then [''0123456789'' ! n]
      else str_nat (n div 10) @ [''0123456789'' ! (n mod 10)])"
  by pat_completeness auto
termination
  by (relation "measure id") auto

declare str_nat.simps [simp del]

definition str_int :: "int \<Rightarrow> string" where
  "str_int i = (if i < 0 then CHR ''-'' # str_nat (nat (- i)) else str_nat (nat i))"

fun str_number :: "number \<Rightarrow> string" where
  "str_number (PyInt i) = str_int i"
| "str_number PyInf = ''inf''"

text \<open>\<^verbatim>\<open>count >= limit\<close> for an int count and a limit that may be infinite.\<close>

fun int_ge :: "int \<Rightarrow> number \<Rightarrow> bool" where
  "int_ge c (PyInt n) = (c \<ge> n)"
| "int_ge c PyInf = False"

subsection \<open>The week of a point in time\<close>

definition day_us :: nat where
  "day_us = 86400000000"

definition weekday :: "datetime \<Rightarrow> nat" where
  "weekday t = (t div day_us) mod 7"

text \<open>
  \<^verbatim>\<open>get_week_start_end\<close> reads the clock once; the reading is the argument \<open>now\<close>.
\<close>

definition get_week_start_end :: "datetime \<Rightarrow> datetime \<times> datetime" where
  "get_week_start_end now =
     (let start_of_week = now - weekday now * day_us;
          start_of_week = (start_of_week div day_us) * day_us;
          end_of_week = start_of_week + 7 * day_us
      in (start_of_week, end_of_week))"

text \<open>
  The query that counts a user's Confirmed bookings created within the week of \<open>now\<close>
  (it occurs three times in the source, each time after a call of
  \<^verbatim>\<open>get_week_start_end\<close>).
\<close>

definition weekly_bookings_count :: "Session \<Rightarrow> int \<Rightarrow> datetime \<Rightarrow> int" where
  "weekly_bookings_count session user_id now =
     (let (start_of_week, end_of_week) = get_week_start_end now
      in int (length (filter
           (\<lambda>b. b_user_id b = user_id \<and> b_status b = CONFIRMED
                \<and> b_created_at b \<ge> start_of_week \<and> b_created_at b < end_of_week)
           (bookings session))))"

subsection \<open>attempt\_booking\<close>

text \<open>
  The values \<^verbatim>\<open>datetime.utcnow()\<close> returns at the places of \<^verbatim>\<open>attempt_booking\<close> that
  read the clock: the week of the token check, \<^verbatim>\<open>created_at\<close> of the new row, the column
  default of \<^verbatim>\<open>updated_at\<close> at the insert, and the week of the balance in the response.
\<close>

record clock =
  t_check :: datetime
  t_created :: datetime
  t_flush :: datetime
  t_after :: datetime

datatype tokens = Tokens int | Unlimited | NA_Volunteer

record response =
  r_booking_id :: int
  r_user_name :: string
  r_activity_title :: string
  r_activity_start :: datetime
  r_tokens_remaining :: tokens
  r_booking_status :: BookingStatus

text \<open>CHECK 1: membership tier token validation (lines 75--101).\<close>

definition check_membership :: "Session \<Rightarrow> datetime \<Rightarrow> User \<Rightarrow> int \<Rightarrow> error option" where
  "check_membership session now user user_id =
     (if u_role user \<noteq> VOLUNTEER then
        (let count = weekly_bookings_count session user_id now;
             token_limit = get_weekly_token_limit user
         in if u_membership_tier user = ADHOC then
              Some (BookingError ''Ad-hoc members must complete payment before booking''
                      PAYMENT_REQUIRED)
            else if token_limit \<noteq> PyInf \<and> int_ge count token_limit then
              Some (BookingError
                      (''Weekly Token Limit Reached. You have used '' @ str_int count
                         @ ''/'' @ str_number token_limit @ '' tokens this week.'')
                      TOKEN_LIMIT_REACHED)
            else None)
      else None)"

text \<open>
  The query of lines 114--118: the Confirmed bookings on the activity, joined with their
  users, whose user is a Volunteer.
\<close>

definition current_volunteer_count :: "Session \<Rightarrow> int \<Rightarrow> int" where
  "current_volunteer_count session activity_id =
     int (length (filter
       (\<lambda>(b, u). b_activity_id b = activity_id \<and> b_status b = CONFIRMED
                  \<and> u_role u = VOLUNTEER)
       (join_User (bookings session) (users session))))"

text \<open>CHECK 2: capacity validation (lines 108--131).\<close>

definition check_capacity :: "Session \<Rightarrow> User \<Rightarrow> Activity \<Rightarrow> int \<Rightarrow> error option" where
  "check_capacity session user activity activity_id =
     (let current_capacity = get_current_capacity activity session;
          current_attendees = get_current_attendees activity session
      in if u_role user = VOLUNTEER then
           (let volunteer_count = current_volunteer_count session activity_id
            in if volunteer_count \<ge> a_volunteer_slots activity then
                 Some (BookingError
                         (''All volunteer slots are filled ('' @ str_int volunteer_count
                            @ ''/'' @ str_int (a_volunteer_slots activity) @ '')'')
                         VOLUNTEER_SLOTS_FULL)
               else None)
         else
           (if current_attendees \<ge> current_capacity then
              Some (BookingError
                      (''Activity at capacity ('' @ str_int current_attendees
                         @ ''/'' @ str_int current_capacity @ '' attendees)'')
                      ACTIVITY_FULL)
            else None))"

text \<open>
  CHECK 3: medical accessibility validation (lines 138--145). \<^verbatim>\<open>and\<close> evaluates
  \<^verbatim>\<open>activity.is_accessible()\<close> only when \<^verbatim>\<open>requires_wheelchair\<close> is truthy.
\<close>

definition check_medical :: "User \<Rightarrow> Activity \<Rightarrow> error option" where
  "check_medical user activity =
     (let user_medical_flags =
            (if truthy (u_medical_flags user) then u_medical_flags user else JDict [])
      in case py_get user_medical_flags ''wheelchair'' (JBool False) of
           Inl e \<Rightarrow> Some e
         | Inr requires_wheelchair \<Rightarrow>
             if truthy requires_wheelchair then
               (case is_accessible activity of
                  Inl e \<Rightarrow> Some e
                | Inr accessible \<Rightarrow>
                    if \<not> truthy accessible then
                      Some (BookingError
                        ''This activity is not wheelchair accessible. Please contact staff for assistance.''
                        ACCESSIBILITY_MISMATCH)
                    else None)
             else None)"

text \<open>
  The primary key the store gives a new booking row: one more than the largest id in the
  table, 1 in an empty table (rows are never deleted).
\<close>

definition next_booking_id :: "Booking list \<Rightarrow> int" where
  "next_booking_id bs = foldr max (map b_id bs) 0 + 1"

text \<open>All checks passed: create the booking (lines 151--188).\<close>

definition create_booking ::
  "Session \<Rightarrow> clock \<Rightarrow> User \<Rightarrow> Activity \<Rightarrow> int \<Rightarrow> int \<Rightarrow> response \<times> Session" where
  "create_booking session clk user activity user_id activity_id =
     (let new_booking =
            \<lparr> b_id = next_booking_id (bookings session),
              b_user_id = user_id,
              b_activity_id = activity_id,
              b_status = CONFIRMED,
              b_created_at = t_created clk,
              b_updated_at = t_flush clk \<rparr>;
          session' = session \<lparr> bookings := bookings session @ [new_booking] \<rparr>;
          remaining_tokens =
            (if u_role user \<noteq> VOLUNTEER then
               (let updated_weekly_count = weekly_bookings_count session' user_id (t_after clk)
                in case get_weekly_token_limit user of
                     PyInt token_limit \<Rightarrow> Tokens (max 0 (token_limit - updated_weekly_count))
                   | PyInf \<Rightarrow> Unlimited)
             else NA_Volunteer)
      in (\<lparr> r_booking_id = b_id new_booking,
            r_user_name = u_name user,
            r_activity_title = a_title activity,
            r_activity_start = a_start_time activity,
            r_tokens_remaining = remaining_tokens,
            r_booking_status = b_status new_booking \<rparr>,
          session'))"

text \<open>
  \<^verbatim>\<open>attempt_booking\<close> returns the outcome (the raised error or the response) together
  with the committed state it leaves behind.
\<close>

definition attempt_booking ::
  "Session \<Rightarrow> clock \<Rightarrow> int \<Rightarrow> int \<Rightarrow> (error + response) \<times> Session" where
  "attempt_booking session clk user_id activity_id =
     (case find (\<lambda>u. u_id u = user_id) (users session) of
        None \<Rightarrow> (Inl (BookingError ''User not found'' USER_NOT_FOUND), session)
      | Some user \<Rightarrow>
     (case find (\<lambda>a. a_id a = activity_id) (activities session) of
        None \<Rightarrow> (Inl (BookingError ''Activity not found'' ACTIVITY_NOT_FOUND), session)
      | Some activity \<Rightarrow>
     (case find (\<lambda>b. b_user_id b = user_id \<and> b_activity_id b = activity_id
                      \<and> b_status b = CONFIRMED) (bookings session) of
        Some existing_booking \<Rightarrow>
          (Inl (BookingError ''You have already booked this activity'' DUPLICATE_BOOKING),
           session)
      | None \<Rightarrow>
     (case check_membership session (t_check clk) user user_id of
        Some e \<Rightarrow> (Inl e, session)
      | None \<Rightarrow>
     (case check_capacity session user activity activity_id of
        Some e \<Rightarrow> (Inl e, session)
      | None \<Rightarrow>
     (case check_medical user activity of
        Some e \<Rightarrow> (Inl e, session)
      | None \<Rightarrow>
          (let (resp, session') = create_booking session clk user activity user_id activity_id
           in (Inr resp, session'))))))))"

subsection \<open>cancel\_booking\<close>

text \<open>
  The argument \<open>now\<close> is the clock reading stored in \<^verbatim>\<open>updated_at\<close>. The commit writes the
  row with the primary key of the booking that was read.
\<close>

definition cancel_booking ::
  "Session \<Rightarrow> datetime \<Rightarrow> int \<Rightarrow> int \<Rightarrow> (error + int) \<times> Session" where
  "cancel_booking session now booking_id user_id =
     (case find (\<lambda>b. b_id b = booking_id \<and> b_user_id b = user_id) (bookings session) of
        None \<Rightarrow>
          (Inl (BookingError ''Booking not found or unauthorized'' BOOKING_NOT_FOUND), session)
      | Some booking \<Rightarrow>
          if b_status booking = CANCELLED then
            (Inl (BookingError ''Booking already cancelled'' ALREADY_CANCELLED), session)
          else
            (Inr booking_id,
             session \<lparr> bookings :=
               map (\<lambda>b. if b_id b = b_id booking
                        then b \<lparr> b_status := CANCELLED, b_updated_at := now \<rparr> else b)
                   (bookings session) \<rparr>))"

section \<open>Notions used by the properties\<close>

subsection \<open>Rows written by the two operations\<close>

text \<open>
  The row \<^verbatim>\<open>attempt_booking\<close> inserts (lines 151--156), and what \<^verbatim>\<open>cancel_booking\<close>
  does to a row of the table (lines 266--267).
\<close>

definition new_booking_row :: "Session \<Rightarrow> clock \<Rightarrow> int \<Rightarrow> int \<Rightarrow> Booking" where
  "new_booking_row s clk uid aid =
     \<lparr> b_id = next_booking_id (bookings s), b_user_id = uid, b_activity_id = aid,
       b_status = CONFIRMED, b_created_at = t_created clk, b_updated_at = t_flush clk \<rparr>"

definition cancel_row :: "datetime \<Rightarrow> int \<Rightarrow> Booking \<Rightarrow> Booking" where
  "cancel_row now bid b =
     (if b_id b = bid then b \<lparr> b_status := CANCELLED, b_updated_at := now \<rparr> else b)"

subsection \<open>Reachable states and their invariant\<close>

text \<open>
  The (user, activity) pairs of the Confirmed bookings, one entry per booking.
\<close>

definition confirmed_pairs :: "Booking list \<Rightarrow> (int \<times> int) list" where
  "confirmed_pairs bs =
     map (\<lambda>b. (b_user_id b, b_activity_id b)) (filter (\<lambda>b. b_status b = CONFIRMED) bs)"

text \<open>
  The states the two operations can produce: any number of calls of \<^verbatim>\<open>attempt_booking\<close>
  and \<^verbatim>\<open>cancel_booking\<close>, successful or not, with any arguments and clock readings,
  starting from \<open>s0\<close>.
\<close>

inductive reachable :: "Session \<Rightarrow> Session \<Rightarrow> bool" for s0 :: Session where
  start: "reachable s0 s0"
| book: "reachable s0 s \<Longrightarrow> attempt_booking s clk uid aid = (r, s') \<Longrightarrow> reachable s0 s'"
| cancel: "reachable s0 s \<Longrightarrow> cancel_booking s now bid uid = (r, s') \<Longrightarrow> reachable s0 s'"

text \<open>
  The invariant of the states reachable from a store without bookings: booking ids are
  unique, no two Confirmed bookings share their (user, activity) pair, no booking is on the
  waitlist, and every booking refers to a stored user and a stored activity.
\<close>

definition consistent :: "Session \<Rightarrow> bool" where
  "consistent s \<longleftrightarrow>
     distinct (map b_id (bookings s))
     \<and> distinct (confirmed_pairs (bookings s))
     \<and> (\<forall>b \<in> set (bookings s).
           b_status b \<noteq> WAITLIST
           \<and> find (\<lambda>u. u_id u = b_user_id b) (users s) \<noteq> None
           \<and> find (\<lambda>a. a_id a = b_activity_id b) (activities s) \<noteq> None)"

subsection \<open>The spec's words for the capacity calculator\<close>

text \<open>
  The role of the owner of a booking: the role of the user the booking's \<^verbatim>\<open>user_id\<close>
  refers to, if there is one.
\<close>

definition owner_role :: "Session \<Rightarrow> Booking \<Rightarrow> UserRole option" where
  "owner_role s b = map_option u_role (find (\<lambda>u. u_id u = b_user_id b) (users s))"

text \<open>
  The store without the booking rows of a given id.
\<close>

definition drop_booking :: "Session \<Rightarrow> int \<Rightarrow> Session" where
  "drop_booking s bid = s \<lparr> bookings := filter (\<lambda>x. b_id x \<noteq> bid) (bookings s) \<rparr>"

subsection \<open>A small store\<close>

text \<open>
  Four of the users and two activities in the style of the seed data of \<^verbatim>\<open>app.py\<close>
  (the art workshop with room for one participant), a clock on a Thursday, and three
  states: no bookings; Alice booked on the art workshop; that booking cancelled.
\<close>

definition alice :: User where
  "alice = \<lparr> u_id = 1, u_name = ''Alice Tan'', u_role = PARTICIPANT,
             u_membership_tier = WEEKLY_1,
             u_medical_flags = JDict [(''wheelchair'', JBool False)] \<rparr>"

definition bob :: User where
  "bob = \<lparr> u_id = 2, u_name = ''Bob Chen'', u_role = PARTICIPANT,
           u_membership_tier = WEEKLY_2,
           u_medical_flags = JDict [(''wheelchair'', JBool True)] \<rparr>"

definition david :: User where
  "david = \<lparr> u_id = 4, u_name = ''David Ng'', u_role = PARTICIPANT,
             u_membership_tier = ADHOC, u_medical_flags = JDict [] \<rparr>"

definition emma :: User where
  "emma = \<lparr> u_id = 5, u_name = ''Emma Wong'', u_role = VOLUNTEER,
            u_membership_tier = ADHOC, u_medical_flags = JDict [] \<rparr>"

definition yoga :: Activity where
  "yoga = \<lparr> a_id = 1, a_title = ''Morning Yoga Session'', a_start_time = 900000000000,
            a_base_capacity = 10, a_volunteer_slots = 3,
            a_requirements = JDict [(''accessible'', JBool True)] \<rparr>"

definition art :: Activity where
  "art = \<lparr> a_id = 2, a_title = ''Art & Craft Workshop'', a_start_time = 950000000000,
           a_base_capacity = 1, a_volunteer_slots = 2,
           a_requirements = JDict [(''accessible'', JBool False)] \<rparr>"

definition demo_clock :: clock where
  "demo_clock = \<lparr> t_check = 867600000000, t_created = 867600000001,
                  t_flush = 867600000002, t_after = 867600000003 \<rparr>"

definition demo0 :: Session where
  "demo0 = \<lparr> users = [alice, bob, david, emma], activities = [yoga, art], bookings = [] \<rparr>"

definition booking1 :: Booking where
  "booking1 = \<lparr> b_id = 1, b_user_id = 1, b_activity_id = 2, b_status = CONFIRMED,
                b_created_at = 867600000001, b_updated_at = 867600000002 \<rparr>"

definition demo1 :: Session where
  "demo1 = demo0 \<lparr> bookings := [booking1] \<rparr>"

definition demo2 :: Session where
  "demo2 = demo0 \<lparr> bookings :=
     [booking1 \<lparr> b_status := CANCELLED, b_updated_at := 900000000000 \<rparr>] \<rparr>"

text \<open>
  An activity whose \<^verbatim>\<open>requirements\<close> column holds JSON null, as stored by
  \<^verbatim>\<open>POST /api/activities\<close> for a body with \<^verbatim>\<open>"requirements": null\<close>.
\<close>

definition storeroom :: Activity where
  "storeroom = \<lparr> a_id = 3, a_title = ''Storeroom Tour'', a_start_time = 960000000000,
                 a_base_capacity = 10, a_volunteer_slots = 0, a_requirements = JNull \<rparr>"

definition demo_null :: Session where
  "demo_null = \<lparr> users = [alice, bob], activities = [storeroom], bookings = [] \<rparr>"

text \<open>
  A store for the volunteer ceiling: an activity with one volunteer slot, on which Emma
  (Volunteer) and Alice hold Confirmed bookings and Grace (Volunteer) a Cancelled one.
\<close>

definition grace :: User where
  "grace = \<lparr> u_id = 6, u_name = ''Grace Koh'', u_role = VOLUNTEER,
             u_membership_tier = ADHOC, u_medical_flags = JNull \<rparr>"

definition music :: Activity where
  "music = \<lparr> a_id = 4, a_title = ''Music Therapy'', a_start_time = 990000000000,
             a_base_capacity = 6, a_volunteer_slots = 1,
             a_requirements = JDict [(''accessible'', JBool True)] \<rparr>"

definition demo_vol :: Session where
  "demo_vol =
     \<lparr> users = [alice, emma, grace], activities = [music],
       bookings =
         [\<lparr> b_id = 1, b_user_id = 6, b_activity_id = 4, b_status = CANCELLED,
            b_created_at = 867000000000, b_updated_at = 867100000000 \<rparr>,
          \<lparr> b_id = 2, b_user_id = 5, b_activity_id = 4, b_status = CONFIRMED,
            b_created_at = 867200000000, b_updated_at = 867200000001 \<rparr>,
          \<lparr> b_id = 3, b_user_id = 1, b_activity_id = 4, b_status = CONFIRMED,
            b_created_at = 867300000000, b_updated_at = 867300000001 \<rparr>] \<rparr>"

section \<open>Lemmas\<close>

subsection \<open>Outcomes of the two operations\<close>

lemma attempt_booking_error_unchanged:
  "attempt_booking s clk uid aid = (Inl e, s') \<Longrightarrow> s' = s"
  by (auto simp: attempt_booking_def split: option.splits prod.splits)

lemma create_booking_state:
  "create_booking s clk u a uid aid = (r, s') \<Longrightarrow>
     s' = s \<lparr> bookings := bookings s @ [new_booking_row s clk uid aid] \<rparr>"
  by (auto simp: create_booking_def new_booking_row_def Let_def)

lemma attempt_booking_success:
  assumes "attempt_booking s clk uid aid = (Inr r, s')"
  shows "\<exists>u a. find (\<lambda>u. u_id u = uid) (users s) = Some u
             \<and> find (\<lambda>a. a_id a = aid) (activities s) = Some a
             \<and> find (\<lambda>b. b_user_id b = uid \<and> b_activity_id b = aid \<and> b_status b = CONFIRMED)
                  (bookings s) = None
             \<and> check_membership s (t_check clk) u uid = None
             \<and> check_capacity s u a aid = None
             \<and> check_medical u a = None
             \<and> s' = s \<lparr> bookings := bookings s @ [new_booking_row s clk uid aid] \<rparr>"
  using assms
  by (auto simp: attempt_booking_def split: option.splits prod.splits
           dest: create_booking_state)

lemma cancel_booking_error_unchanged:
  "cancel_booking s now bid uid = (Inl e, s') \<Longrightarrow> s' = s"
  by (auto simp: cancel_booking_def split: option.splits if_splits)

lemma cancel_booking_success:
  assumes "cancel_booking s now bid uid = (Inr r, s')"
  shows "\<exists>b. find (\<lambda>b. b_id b = bid \<and> b_user_id b = uid) (bookings s) = Some b
           \<and> b_status b \<noteq> CANCELLED \<and> r = bid
           \<and> s' = s \<lparr> bookings := map (cancel_row now bid) (bookings s) \<rparr>"
proof -
  from assms obtain b where
    f: "find (\<lambda>b. b_id b = bid \<and> b_user_id b = uid) (bookings s) = Some b"
    by (auto simp: cancel_booking_def split: option.splits)
  then have "b_id b = bid"
    by (auto simp: find_Some_iff)
  with assms f show ?thesis
    by (auto simp: cancel_booking_def cancel_row_def fun_eq_iff split: if_splits)
qed

subsection \<open>The invariant is preserved\<close>

lemma foldr_max_upper: "x \<in> set xs \<Longrightarrow> x \<le> foldr max xs (0::int)"
  by (induction xs) auto

lemma next_booking_id_fresh: "b \<in> set bs \<Longrightarrow> b_id b < next_booking_id bs"
  using foldr_max_upper[of "b_id b" "map b_id bs"]
  by (simp add: next_booking_id_def)

lemma confirmed_pairs_append:
  "confirmed_pairs (bs @ cs) = confirmed_pairs bs @ confirmed_pairs cs"
  by (simp add: confirmed_pairs_def)

lemma find_dup_None_pairs:
  "find (\<lambda>b. b_user_id b = uid \<and> b_activity_id b = aid \<and> b_status b = CONFIRMED) bs = None
     \<longleftrightarrow> (uid, aid) \<notin> set (confirmed_pairs bs)"
  by (auto simp: find_None_iff confirmed_pairs_def)

lemma consistent_attempt_booking:
  assumes c: "consistent s" and a: "attempt_booking s clk uid aid = (r, s')"
  shows "consistent s'"
proof (cases r)
  case (Inl e)
  with a have "s' = s" by (auto dest: attempt_booking_error_unchanged)
  with c show ?thesis by simp
next
  case (Inr resp)
  with a obtain u act where
    u: "find (\<lambda>u. u_id u = uid) (users s) = Some u" and
    act: "find (\<lambda>a. a_id a = aid) (activities s) = Some act" and
    nodup: "find (\<lambda>b. b_user_id b = uid \<and> b_activity_id b = aid \<and> b_status b = CONFIRMED)
              (bookings s) = None" and
    s': "s' = s \<lparr> bookings := bookings s @ [new_booking_row s clk uid aid] \<rparr>"
    by (auto dest!: attempt_booking_success)
  have fresh: "b_id (new_booking_row s clk uid aid) \<notin> b_id ` set (bookings s)"
    by (auto simp: new_booking_row_def dest: next_booking_id_fresh)
  have pair: "(uid, aid) \<notin> set (confirmed_pairs (bookings s))"
    using nodup by (simp add: find_dup_None_pairs)
  have new_pairs: "confirmed_pairs [new_booking_row s clk uid aid] = [(uid, aid)]"
    by (simp add: confirmed_pairs_def new_booking_row_def)
  have d1: "distinct (map b_id (bookings s'))"
    using c fresh by (simp add: s' consistent_def)
  have d2: "distinct (confirmed_pairs (bookings s'))"
    using c pair by (simp add: s' consistent_def confirmed_pairs_append new_pairs)
  have d3: "\<forall>b \<in> set (bookings s').
           b_status b \<noteq> WAITLIST
           \<and> find (\<lambda>u. u_id u = b_user_id b) (users s') \<noteq> None
           \<and> find (\<lambda>a. a_id a = b_activity_id b) (activities s') \<noteq> None"
    using c u act by (auto simp: s' consistent_def new_booking_row_def)
  from d1 d2 d3 show ?thesis
    unfolding consistent_def by blast
qed

lemma b_id_cancel_row: "b_id (cancel_row now bid b) = b_id b"
  by (simp add: cancel_row_def)

lemma map_b_id_cancel_row: "map (b_id \<circ> cancel_row now bid) bs = map b_id bs"
  by (simp add: b_id_cancel_row)

lemma confirmed_pairs_cancel_row:
  "confirmed_pairs (map (cancel_row now bid) bs) =
     confirmed_pairs (filter (\<lambda>b. b_id b \<noteq> bid) bs)"
  by (induction bs) (auto simp: cancel_row_def confirmed_pairs_def)

lemma distinct_confirmed_pairs_filter:
  "distinct (confirmed_pairs bs) \<Longrightarrow> distinct (confirmed_pairs (filter Q bs))"
  by (induction bs) (auto simp: confirmed_pairs_def)

lemma consistent_cancel_booking:
  assumes c: "consistent s" and a: "cancel_booking s now bid uid = (r, s')"
  shows "consistent s'"
proof (cases r)
  case (Inl e)
  with a have "s' = s" by (auto dest: cancel_booking_error_unchanged)
  with c show ?thesis by simp
next
  case (Inr k)
  with a have s': "s' = s \<lparr> bookings := map (cancel_row now bid) (bookings s) \<rparr>"
    by (auto dest!: cancel_booking_success)
  have d1: "distinct (map b_id (bookings s'))"
    using c by (simp add: s' consistent_def map_b_id_cancel_row)
  have d2: "distinct (confirmed_pairs (bookings s'))"
    using c by (simp add: s' consistent_def confirmed_pairs_cancel_row
                  distinct_confirmed_pairs_filter)
  have d3: "\<forall>b \<in> set (bookings s').
           b_status b \<noteq> WAITLIST
           \<and> find (\<lambda>u. u_id u = b_user_id b) (users s') \<noteq> None
           \<and> find (\<lambda>a. a_id a = b_activity_id b) (activities s') \<noteq> None"
    using c by (auto simp: s' consistent_def cancel_row_def)
  from d1 d2 d3 show ?thesis
    unfolding consistent_def by blast
qed

lemma reachable_consistent:
  assumes "reachable s0 s" and "bookings s0 = []"
  shows "consistent s"
  using assms
proof (induction rule: reachable.induct)
  case start
  then show ?case by (simp add: consistent_def confirmed_pairs_def)
next
  case (book s clk uid aid r s')
  then show ?case by (blast intro: consistent_attempt_booking)
next
  case (cancel s now bid uid r s')
  then show ?case by (blast intro: consistent_cancel_booking)
qed

subsection \<open>The small store, evaluated\<close>

lemmas demo_defs = alice_def bob_def david_def emma_def yoga_def art_def demo_clock_def
  demo0_def booking1_def demo1_def demo2_def

lemmas service_defs = attempt_booking_def cancel_booking_def check_membership_def
  check_capacity_def check_medical_def create_booking_def next_booking_id_def
  weekly_bookings_count_def get_week_start_end_def weekday_def day_us_def
  get_weekly_token_limit_def get_current_capacity_def get_current_attendees_def
  join_User_def is_accessible_def str_int_def current_volunteer_count_def

lemma demo_week: "get_week_start_end 867600000000 = (604800000000, 1209600000000)"
  by (simp add: get_week_start_end_def weekday_def day_us_def)

lemma demo0_book:
  "attempt_booking demo0 demo_clock 1 2 =
     (Inr \<lparr> r_booking_id = 1, r_user_name = ''Alice Tan'',
            r_activity_title = ''Art & Craft Workshop'', r_activity_start = 950000000000,
            r_tokens_remaining = Tokens 0, r_booking_status = CONFIRMED \<rparr>, demo1)"
  by (simp add: demo_defs service_defs)

lemma demo1_reachable: "reachable demo0 demo1"
  using reachable.book[OF reachable.start demo0_book] .

lemma demo1_rebook:
  "attempt_booking demo1 demo_clock 1 1 =
     (Inl (BookingError ''Weekly Token Limit Reached. You have used 1/1 tokens this week.''
        TOKEN_LIMIT_REACHED), demo1)"
  by (simp add: demo_defs service_defs str_nat.simps)

subsection \<open>Lists with distinct keys\<close>

lemma distinct_map_filter_le1:
  "distinct (map f xs) \<Longrightarrow> length (filter (\<lambda>x. f x = k) xs) \<le> 1"
  by (induction xs) (auto simp: filter_empty_conv image_iff)

lemma confirmed_count_le1:
  assumes "distinct (confirmed_pairs bs)"
  shows "length (filter (\<lambda>b. b_user_id b = uid \<and> b_activity_id b = aid
                            \<and> b_status b = CONFIRMED) bs) \<le> 1"
proof -
  have "filter (\<lambda>b. b_user_id b = uid \<and> b_activity_id b = aid \<and> b_status b = CONFIRMED) bs
        = filter (\<lambda>b. (b_user_id b, b_activity_id b) = (uid, aid))
            (filter (\<lambda>b. b_status b = CONFIRMED) bs)"
    by (simp add: conj_commute conj_left_commute cong: conj_cong)
  then show ?thesis
    using assms distinct_map_filter_le1[of "\<lambda>b. (b_user_id b, b_activity_id b)"
        "filter (\<lambda>b. b_status b = CONFIRMED) bs" "(uid, aid)"]
    by (simp add: confirmed_pairs_def)
qed

lemma attempt_booking_duplicate:
  assumes "find (\<lambda>u. u_id u = uid) (users s) \<noteq> None"
    and "find (\<lambda>a. a_id a = aid) (activities s) \<noteq> None"
    and "b \<in> set (bookings s)" and "b_user_id b = uid" and "b_activity_id b = aid"
    and "b_status b = CONFIRMED"
  shows "attempt_booking s clk uid aid =
           (Inl (BookingError ''You have already booked this activity'' DUPLICATE_BOOKING), s)"
proof -
  have "find (\<lambda>b. b_user_id b = uid \<and> b_activity_id b = aid \<and> b_status b = CONFIRMED)
          (bookings s) \<noteq> None"
    using assms(3-6) by (auto simp: find_None_iff)
  with assms(1,2) show ?thesis
    by (auto simp: attempt_booking_def)
qed

lemma distinct_map_eq:
  "distinct (map f xs) \<Longrightarrow> x \<in> set xs \<Longrightarrow> y \<in> set xs \<Longrightarrow> f x = f y \<Longrightarrow> x = y"
  by (auto simp: distinct_map dest: inj_onD)

lemma find_Some_set: "find P xs = Some x \<Longrightarrow> x \<in> set xs \<and> P x"
  by (auto simp: find_Some_iff)

subsection \<open>The week of a clock reading\<close>

lemma get_week_start_end_eq:
  "get_week_start_end now =
     (7 * day_us * (now div (7 * day_us)), 7 * day_us * (now div (7 * day_us)) + 7 * day_us)"
proof -
  have d: "0 < day_us" by (simp add: day_us_def)
  define q where "q = now div day_us"
  define r where "r = now mod day_us"
  have now: "now = q * day_us + r" by (simp add: q_def r_def)
  have r: "r < day_us" using d by (simp add: r_def)
  have "now - (q mod 7) * day_us = (q - q mod 7) * day_us + r"
    by (simp add: now diff_mult_distrib)
  then have "(now - (q mod 7) * day_us) div day_us = q - q mod 7"
    using r by simp
  moreover have "q - q mod 7 = 7 * (q div 7)"
    by (simp add: minus_mod_eq_mult_div)
  moreover have "q div 7 = now div (7 * day_us)"
    by (simp add: q_def div_mult2_eq mult.commute)
  ultimately show ?thesis
    by (simp add: get_week_start_end_def weekday_def Let_def q_def mult.commute mult.left_commute)
qed

lemma now_in_own_week:
  "fst (get_week_start_end now) \<le> now \<and> now < snd (get_week_start_end now)"
proof -
  have "0 < 7 * day_us" by (simp add: day_us_def)
  then have "7 * day_us * (now div (7 * day_us)) \<le> now
           \<and> now < 7 * day_us * (now div (7 * day_us)) + 7 * day_us"
    by (metis add.commute dividend_less_times_div mult.commute times_div_less_eq_dividend)
  then show ?thesis by (simp add: get_week_start_end_eq)
qed

subsection \<open>The join of bookings with users\<close>

lemma join_User_Nil: "join_User [] us = []"
  by (simp add: join_User_def)

lemma join_User_Cons:
  "join_User (b # bs) us =
     map (Pair b) (filter (\<lambda>u. b_user_id b = u_id u) us) @ join_User bs us"
proof -
  have "concat (map (\<lambda>u. if b_user_id b = u_id u then [(b, u)] else []) us) =
        map (Pair b) (filter (\<lambda>u. b_user_id b = u_id u) us)"
    by (induction us) auto
  then show ?thesis by (simp add: join_User_def)
qed

lemma filter_key_find:
  "distinct (map u_id us) \<Longrightarrow>
     filter (\<lambda>u. k = u_id u) us =
       (case find (\<lambda>u. u_id u = k) us of None \<Rightarrow> [] | Some u \<Rightarrow> [u])"
proof (induction us)
  case Nil
  then show ?case by simp
next
  case (Cons u us)
  show ?case
  proof (cases "u_id u = k")
    case True
    with Cons.prems have "\<forall>x \<in> set us. u_id x \<noteq> k" by (auto simp: image_iff)
    then have "filter (\<lambda>u. k = u_id u) us = []"
      by (auto simp: filter_empty_conv)
    with True show ?thesis by simp
  next
    case False
    with Cons show ?thesis by auto
  qed
qed

lemma join_count_owner:
  assumes "distinct (map u_id (users s))"
  shows "length (filter (\<lambda>(b, u). Q b \<and> R (u_role u)) (join_User bs (users s))) =
         length (filter (\<lambda>b. Q b \<and> (\<exists>r. owner_role s b = Some r \<and> R r)) bs)"
proof (induction bs)
  case Nil
  then show ?case by (simp add: join_User_Nil)
next
  case (Cons b bs)
  have "length (filter (\<lambda>(b, u). Q b \<and> R (u_role u))
          (map (Pair b) (filter (\<lambda>u. b_user_id b = u_id u) (users s)))) =
        (if Q b \<and> (\<exists>r. owner_role s b = Some r \<and> R r) then 1 else 0)"
    using assms
    by (simp add: filter_key_find owner_role_def split: option.splits)
  with Cons show ?case
    by (simp add: join_User_Cons)
qed

lemma current_volunteer_count_owner:
  assumes "distinct (map u_id (users s))"
  shows "current_volunteer_count s aid =
           int (length (filter
             (\<lambda>b. b_activity_id b = aid \<and> b_status b = CONFIRMED
                  \<and> owner_role s b = Some VOLUNTEER) (bookings s)))"
  using join_count_owner[OF assms,
      of "\<lambda>b. b_activity_id b = aid \<and> b_status b = CONFIRMED" "\<lambda>r. r = VOLUNTEER"
         "bookings s"]
  by (simp add: current_volunteer_count_def conj_assoc)

subsection \<open>The three checks\<close>

lemma check_membership_codes:
  "check_membership s now u uid = Some e \<Longrightarrow>
     \<exists>msg. e = BookingError msg PAYMENT_REQUIRED \<or> e = BookingError msg TOKEN_LIMIT_REACHED"
  by (auto simp: check_membership_def Let_def split: if_splits)

lemma check_membership_volunteer:
  "u_role u = VOLUNTEER \<Longrightarrow> check_membership s now u uid = None"
  by (simp add: check_membership_def)

lemma check_capacity_participant:
  "u_role u \<noteq> VOLUNTEER \<Longrightarrow>
     check_capacity s u a aid =
       (if get_current_capacity a s \<le> get_current_attendees a s then
          Some (BookingError
                  (''Activity at capacity ('' @ str_int (get_current_attendees a s)
                     @ ''/'' @ str_int (get_current_capacity a s) @ '' attendees)'')
                  ACTIVITY_FULL)
        else None)"
  by (simp add: check_capacity_def Let_def)

lemma check_capacity_volunteer:
  "u_role u = VOLUNTEER \<Longrightarrow>
     check_capacity s u a aid =
       (if a_volunteer_slots a \<le> current_volunteer_count s aid then
          Some (BookingError
                  (''All volunteer slots are filled ('' @ str_int (current_volunteer_count s aid)
                     @ ''/'' @ str_int (a_volunteer_slots a) @ '')'')
                  VOLUNTEER_SLOTS_FULL)
        else None)"
  by (simp add: check_capacity_def Let_def)

lemma check_capacity_codes:
  "check_capacity s u a aid = Some e \<Longrightarrow>
     \<exists>msg. e = BookingError msg VOLUNTEER_SLOTS_FULL \<or> e = BookingError msg ACTIVITY_FULL"
  by (cases "u_role u = VOLUNTEER")
     (auto simp: check_capacity_participant check_capacity_volunteer split: if_splits)

lemma py_get_error: "py_get j k d = Inl e \<Longrightarrow> e = AttributeError"
  by (cases j) auto

lemma check_medical_codes:
  "check_medical u a = Some e \<Longrightarrow>
     e = AttributeError
     \<or> e = BookingError
        ''This activity is not wheelchair accessible. Please contact staff for assistance.''
        ACCESSIBILITY_MISMATCH"
  by (auto simp: check_medical_def is_accessible_def Let_def split: sum.splits if_splits
           dest: py_get_error)

lemma attempt_booking_checks:
  assumes "find (\<lambda>u. u_id u = uid) (users s) = Some u"
    and "find (\<lambda>a. a_id a = aid) (activities s) = Some a"
    and "find (\<lambda>b. b_user_id b = uid \<and> b_activity_id b = aid \<and> b_status b = CONFIRMED)
           (bookings s) = None"
  shows "attempt_booking s (clk :: clock) uid aid =
     (case check_membership s (t_check clk) u uid of
        Some e \<Rightarrow> (Inl e, s)
      | None \<Rightarrow>
     (case check_capacity s u a aid of
        Some e \<Rightarrow> (Inl e, s)
      | None \<Rightarrow>
     (case check_medical u a of
        Some e \<Rightarrow> (Inl e, s)
      | None \<Rightarrow> (Inr (fst (create_booking s clk u a uid aid)),
                  s \<lparr> bookings := bookings s @ [new_booking_row s clk uid aid] \<rparr>))))"
  using assms
  by (auto simp: attempt_booking_def split: option.splits prod.splits
           dest: create_booking_state)

lemma demo1_art_counts:
  "get_current_capacity art demo1 = 1"
  "get_current_attendees art demo1 = 1"
  "current_volunteer_count demo1 2 = 0"
  by (simp_all add: demo_defs get_current_capacity_def get_current_attendees_def
        current_volunteer_count_def join_User_def)

subsection \<open>Counts after a cancellation\<close>

lemma join_cancel_filter:
  "filter (\<lambda>(x, u). b_activity_id x = k \<and> b_status x = CONFIRMED \<and> R (u_role u))
     (join_User (map (cancel_row now bid) bs) us) =
   filter (\<lambda>(x, u). b_activity_id x = k \<and> b_status x = CONFIRMED \<and> R (u_role u))
     (join_User (filter (\<lambda>x. b_id x \<noteq> bid) bs) us)"
proof (induction bs)
  case Nil
  then show ?case by simp
next
  case (Cons b bs)
  show ?case
  proof (cases "b_id b = bid")
    case True
    then have "b_status (cancel_row now bid b) = CANCELLED"
      by (simp add: cancel_row_def)
    then have "filter (\<lambda>(x, u). b_activity_id x = k \<and> b_status x = CONFIRMED \<and> R (u_role u))
       (map (Pair (cancel_row now bid b))
          (filter (\<lambda>u. b_user_id (cancel_row now bid b) = u_id u) us)) = []"
      by (simp add: filter_empty_conv)
    with True Cons show ?thesis
      by (simp add: join_User_Cons)
  next
    case False
    then have "cancel_row now bid b = b"
      by (simp add: cancel_row_def)
    with False Cons show ?thesis
      by (simp add: join_User_Cons)
  qed
qed

lemma cancel_counts:
  assumes "s' = s \<lparr> bookings := map (cancel_row now bid) (bookings s) \<rparr>"
  shows "get_current_attendees a s' = get_current_attendees a (drop_booking s bid)"
    and "get_current_capacity a s' = get_current_capacity a (drop_booking s bid)"
    and "current_volunteer_count s' k = current_volunteer_count (drop_booking s bid) k"
  using join_cancel_filter[of _ "\<lambda>r. r \<noteq> VOLUNTEER" now bid "bookings s" "users s"]
    join_cancel_filter[of _ "\<lambda>r. r = VOLUNTEER" now bid "bookings s" "users s"]
  by (simp_all add: assms get_current_attendees_def get_current_capacity_def
        current_volunteer_count_def drop_booking_def)

lemma weekly_filter_cancel:
  "length (filter (\<lambda>b. b_user_id b = uid \<and> b_status b = CONFIRMED
                       \<and> ws \<le> b_created_at b \<and> b_created_at b < we)
     (map (cancel_row now bid) bs)) =
   length (filter (\<lambda>b. b_user_id b = uid \<and> b_status b = CONFIRMED
                       \<and> ws \<le> b_created_at b \<and> b_created_at b < we)
     (filter (\<lambda>x. b_id x \<noteq> bid) bs))"
  by (induction bs) (auto simp: cancel_row_def)

lemma cancel_weekly_count:
  assumes "s' = s \<lparr> bookings := map (cancel_row now bid) (bookings s) \<rparr>"
  shows "weekly_bookings_count s' uid t = weekly_bookings_count (drop_booking s bid) uid t"
proof -
  obtain ws we where w: "get_week_start_end t = (ws, we)"
    by (cases "get_week_start_end t")
  show ?thesis
    unfolding weekly_bookings_count_def w assms drop_booking_def
    using weekly_filter_cancel[of uid ws we now bid "bookings s"]
    by simp
qed

lemma find_by_id:
  assumes "distinct (map b_id bs)" and "b \<in> set bs"
  shows "find (\<lambda>x. b_id x = b_id b \<and> b_user_id x = b_user_id b) bs = Some b"
proof (cases "find (\<lambda>x. b_id x = b_id b \<and> b_user_id x = b_user_id b) bs")
  case None
  with assms(2) show ?thesis by (auto simp: find_None_iff)
next
  case (Some x)
  then have "x \<in> set bs" and "b_id x = b_id b"
    by (auto dest: find_Some_set)
  with assms have "x = b" by (auto dest: distinct_map_eq)
  with Some show ?thesis by simp
qed

lemma confirmed_pair_unique:
  assumes "distinct (confirmed_pairs bs)"
    and "x \<in> set bs" and "b_status x = CONFIRMED"
    and "y \<in> set bs" and "b_status y = CONFIRMED"
    and "b_user_id x = b_user_id y" and "b_activity_id x = b_activity_id y"
  shows "x = y"
  using distinct_map_eq[of "\<lambda>b. (b_user_id b, b_activity_id b)"
      "filter (\<lambda>b. b_status b = CONFIRMED) bs" x y] assms
  by (simp add: confirmed_pairs_def)

lemma drop_booking_removeAll:
  assumes "distinct (map b_id (bookings s))" and "b \<in> set (bookings s)"
  shows "bookings (drop_booking s (b_id b)) = removeAll b (bookings s)"
proof -
  have "filter (\<lambda>x. b_id x \<noteq> b_id b) (bookings s) = filter (\<lambda>x. b \<noteq> x) (bookings s)"
    using assms by (intro filter_cong) (auto dest: distinct_map_eq)
  then show ?thesis
    by (simp add: drop_booking_def removeAll_filter_not_eq)
qed

lemma demo1_cancel: "cancel_booking demo1 900000000000 1 1 = (Inr 1, demo2)"
  by (simp add: demo_defs cancel_booking_def)

subsection \<open>Accessibility\<close>

lemma is_accessible_dict:
  "a_requirements a = JDict kvs \<Longrightarrow>
     is_accessible a = Inr (case map_of kvs ''accessible'' of None \<Rightarrow> JBool False | Some v \<Rightarrow> v)"
  by (simp add: is_accessible_def)

lemma wheelchair_mismatch:
  assumes "find (\<lambda>u. u_id u = uid) (users s) = Some u"
    and "find (\<lambda>a. a_id a = aid) (activities s) = Some a"
    and "find (\<lambda>b. b_user_id b = uid \<and> b_activity_id b = aid \<and> b_status b = CONFIRMED)
           (bookings s) = None"
    and "check_membership s (t_check clk) u uid = None"
    and "check_capacity s u a aid = None"
    and "u_medical_flags u = JDict flags" and "map_of flags ''wheelchair'' = Some (JBool True)"
    and "is_accessible a = Inr v"
  shows "attempt_booking s clk uid aid =
     (if truthy v then
        (Inr (fst (create_booking s clk u a uid aid)),
         s \<lparr> bookings := bookings s @ [new_booking_row s clk uid aid] \<rparr>)
      else
        (Inl (BookingError
           ''This activity is not wheelchair accessible. Please contact staff for assistance.''
           ACCESSIBILITY_MISMATCH), s))"
proof -
  have "flags \<noteq> []" using assms(7) by auto
  then have "check_medical u a =
     (if truthy v then None else
        Some (BookingError
           ''This activity is not wheelchair accessible. Please contact staff for assistance.''
           ACCESSIBILITY_MISMATCH))"
    using assms(6-8) by (simp add: check_medical_def)
  then show ?thesis
    using assms(1-5) by (simp add: attempt_booking_checks)
qed

section \<open>Properties\<close>

text \<open>
  C1. In every state reachable from a store without bookings by any sequence of
  \<^verbatim>\<open>attempt_booking\<close> and \<^verbatim>\<open>cancel_booking\<close> calls, each (user, activity) pair has at
  most one Confirmed booking; and whenever a Confirmed booking for a pair exists, an attempt
  for that pair is rejected with \<^verbatim>\<open>DUPLICATE_BOOKING\<close> and leaves the store as it was.
\<close>

theorem C1_at_most_one_confirmed:
  assumes "bookings s0 = []" and "reachable s0 s"
  shows "(\<forall>uid aid.
            length (filter (\<lambda>b. b_user_id b = uid \<and> b_activity_id b = aid
                                 \<and> b_status b = CONFIRMED) (bookings s)) \<le> 1)
       \<and> (\<forall>b \<in> set (bookings s). \<forall>clk.
            b_status b = CONFIRMED \<longrightarrow>
            attempt_booking s clk (b_user_id b) (b_activity_id b) =
              (Inl (BookingError ''You have already booked this activity'' DUPLICATE_BOOKING),
               s))"
proof -
  have c: "consistent s"
    using assms by (simp add: reachable_consistent)
  then have "distinct (confirmed_pairs (bookings s))"
    by (simp add: consistent_def)
  then have one: "\<forall>uid aid.
            length (filter (\<lambda>b. b_user_id b = uid \<and> b_activity_id b = aid
                                 \<and> b_status b = CONFIRMED) (bookings s)) \<le> 1"
    by (intro allI confirmed_count_le1)
  have dup: "\<forall>b \<in> set (bookings s). \<forall>clk.
            b_status b = CONFIRMED \<longrightarrow>
            attempt_booking s clk (b_user_id b) (b_activity_id b) =
              (Inl (BookingError ''You have already booked this activity'' DUPLICATE_BOOKING),
               s)"
  proof (intro ballI allI impI)
    fix b clk
    assume b: "b \<in> set (bookings s)" and st: "b_status b = CONFIRMED"
    from c b have "find (\<lambda>u. u_id u = b_user_id b) (users s) \<noteq> None"
      and "find (\<lambda>a. a_id a = b_activity_id b) (activities s) \<noteq> None"
      by (simp_all add: consistent_def)
    then show "attempt_booking s clk (b_user_id b) (b_activity_id b) =
              (Inl (BookingError ''You have already booked this activity'' DUPLICATE_BOOKING),
               s)"
      using b st by (intro attempt_booking_duplicate[of "b_user_id b" s "b_activity_id b" b])
        simp_all
  qed
  from one dup show ?thesis by blast
qed

theorem C1_witness:
  "bookings demo0 = [] \<and> reachable demo0 demo1
   \<and> length (filter (\<lambda>b. b_user_id b = 1 \<and> b_activity_id b = 2 \<and> b_status b = CONFIRMED)
        (bookings demo1)) \<le> 1
   \<and> attempt_booking demo1 demo_clock 1 2 =
       (Inl (BookingError ''You have already booked this activity'' DUPLICATE_BOOKING), demo1)"
proof -
  have e: "bookings demo0 = []" by (simp add: demo0_def)
  have m: "booking1 \<in> set (bookings demo1)"
    and f: "b_status booking1 = CONFIRMED" "b_user_id booking1 = 1" "b_activity_id booking1 = 2"
    by (simp_all add: demo_defs)
  from C1_at_most_one_confirmed[OF e demo1_reachable] m f e demo1_reachable
  show ?thesis by fastforce
qed

text \<open>
  C2. A user who is not a Volunteer, with the user and the activity found and no Confirmed
  booking for the pair: an Adhoc member is rejected with \<^verbatim>\<open>PAYMENT_REQUIRED\<close> whatever the
  weekly count is; a member of another tier whose limit is finite and whose Confirmed
  bookings created in the current week number at least the limit is rejected with
  \<^verbatim>\<open>TOKEN_LIMIT_REACHED\<close>, and the message carries the usage and the limit as
  \<^verbatim>\<open>usage/limit\<close>.
\<close>

theorem C2_token_check:
  assumes "find (\<lambda>u. u_id u = uid) (users s) = Some u"
    and "find (\<lambda>a. a_id a = aid) (activities s) = Some a"
    and "find (\<lambda>b. b_user_id b = uid \<and> b_activity_id b = aid \<and> b_status b = CONFIRMED)
           (bookings s) = None"
    and "u_role u \<noteq> VOLUNTEER"
    and "get_week_start_end (t_check clk) = (week_start, week_end)"
    and "usage = int (length (filter
           (\<lambda>b. b_user_id b = uid \<and> b_status b = CONFIRMED
                \<and> week_start \<le> b_created_at b \<and> b_created_at b < week_end) (bookings s)))"
  shows "(u_membership_tier u = ADHOC \<longrightarrow>
            attempt_booking s clk uid aid =
              (Inl (BookingError ''Ad-hoc members must complete payment before booking''
                 PAYMENT_REQUIRED), s))
       \<and> (\<forall>limit. u_membership_tier u \<noteq> ADHOC \<and> get_weekly_token_limit u = PyInt limit
                   \<and> limit \<le> usage \<longrightarrow>
            attempt_booking s clk uid aid =
              (Inl (BookingError
                 (''Weekly Token Limit Reached. You have used '' @ str_int usage @ ''/''
                    @ str_int limit @ '' tokens this week.'')
                 TOKEN_LIMIT_REACHED), s))"
proof -
  have w: "weekly_bookings_count s uid (t_check clk) = usage"
    using assms(5,6) by (simp add: weekly_bookings_count_def)
  have adhoc: "u_membership_tier u = ADHOC \<Longrightarrow>
      check_membership s (t_check clk) u uid =
        Some (BookingError ''Ad-hoc members must complete payment before booking''
                 PAYMENT_REQUIRED)"
    using assms(4) by (simp add: check_membership_def Let_def)
  have lim: "\<And>limit. u_membership_tier u \<noteq> ADHOC \<Longrightarrow> get_weekly_token_limit u = PyInt limit
      \<Longrightarrow> limit \<le> usage \<Longrightarrow>
      check_membership s (t_check clk) u uid =
        Some (BookingError
                 (''Weekly Token Limit Reached. You have used '' @ str_int usage @ ''/''
                    @ str_int limit @ '' tokens this week.'')
                 TOKEN_LIMIT_REACHED)"
    using assms(4) w by (simp add: check_membership_def Let_def)
  show ?thesis
    using assms(1-3) adhoc lim by (auto simp: attempt_booking_def)
qed

text \<open>
  The scenario of the spec: Alice (Weekly\_1) with one Confirmed booking created this week
  is told \<^verbatim>\<open>1/1\<close>; David (Adhoc) is asked to pay.
\<close>

theorem C2_witness:
  "attempt_booking demo1 demo_clock 1 1 =
     (Inl (BookingError ''Weekly Token Limit Reached. You have used 1/1 tokens this week.''
        TOKEN_LIMIT_REACHED), demo1)
   \<and> attempt_booking demo1 demo_clock 4 1 =
     (Inl (BookingError ''Ad-hoc members must complete payment before booking''
        PAYMENT_REQUIRED), demo1)"
proof -
  have wk: "get_week_start_end (t_check demo_clock) = (604800000000, 1209600000000)"
    by (simp add: demo_clock_def demo_week)
  have a1: "find (\<lambda>u. u_id u = 1) (users demo1) = Some alice"
    and a4: "find (\<lambda>u. u_id u = 4) (users demo1) = Some david"
    and y: "find (\<lambda>a. a_id a = 1) (activities demo1) = Some yoga"
    and n1: "find (\<lambda>b. b_user_id b = 1 \<and> b_activity_id b = 1 \<and> b_status b = CONFIRMED)
           (bookings demo1) = None"
    and n4: "find (\<lambda>b. b_user_id b = 4 \<and> b_activity_id b = 1 \<and> b_status b = CONFIRMED)
           (bookings demo1) = None"
    and r1: "u_role alice \<noteq> VOLUNTEER" and r4: "u_role david \<noteq> VOLUNTEER"
    by (simp_all add: demo_defs)
  have u1: "(1::int) = int (length (filter
           (\<lambda>b. b_user_id b = 1 \<and> b_status b = CONFIRMED
                \<and> 604800000000 \<le> b_created_at b \<and> b_created_at b < 1209600000000)
           (bookings demo1)))"
    by (simp add: demo_defs)
  have t1: "u_membership_tier alice \<noteq> ADHOC \<and> get_weekly_token_limit alice = PyInt 1
            \<and> (1::int) \<le> 1"
    by (simp add: alice_def get_weekly_token_limit_def)
  have t4: "u_membership_tier david = ADHOC"
    by (simp add: david_def)
  have s11: "str_int 1 = ''1''"
    by (simp add: str_int_def str_nat.simps)
  from C2_token_check[OF a1 y n1 r1 wk u1] t1 s11
  have p1: "attempt_booking demo1 demo_clock 1 1 =
     (Inl (BookingError ''Weekly Token Limit Reached. You have used 1/1 tokens this week.''
        TOKEN_LIMIT_REACHED), demo1)"
    by simp
  from C2_token_check[OF a4 y n4 r4 wk refl] t4
  have p4: "attempt_booking demo1 demo_clock 4 1 =
     (Inl (BookingError ''Ad-hoc members must complete payment before booking''
        PAYMENT_REQUIRED), demo1)"
    by simp
  from p1 p4 show ?thesis by simp
qed

text \<open>
  C3. With user ids being a primary key, the current capacity of an activity is its base
  capacity plus twice the number of Confirmed bookings on it whose owner is a Volunteer, and
  the current attendees are the Confirmed bookings on it whose owner is not a Volunteer;
  both are functions of the current rows only. An attempt of a non-Volunteer that has
  passed the existence, duplicate and token checks fails with \<^verbatim>\<open>ACTIVITY_FULL\<close> exactly
  when the attendees have reached the capacity.
\<close>

theorem C3_capacity_and_attendees:
  assumes "distinct (map u_id (users s))"
  shows "get_current_capacity a s =
           a_base_capacity a
           + 2 * int (length (filter
               (\<lambda>b. b_activity_id b = a_id a \<and> b_status b = CONFIRMED
                    \<and> owner_role s b = Some VOLUNTEER) (bookings s)))
       \<and> get_current_attendees a s =
           int (length (filter
               (\<lambda>b. b_activity_id b = a_id a \<and> b_status b = CONFIRMED
                    \<and> (\<exists>r. owner_role s b = Some r \<and> r \<noteq> VOLUNTEER)) (bookings s)))
       \<and> (\<forall>clk uid aid u.
             find (\<lambda>u. u_id u = uid) (users s) = Some u \<and> u_role u \<noteq> VOLUNTEER
             \<and> find (\<lambda>x. a_id x = aid) (activities s) = Some a
             \<and> find (\<lambda>b. b_user_id b = uid \<and> b_activity_id b = aid \<and> b_status b = CONFIRMED)
                  (bookings s) = None
             \<and> check_membership s (t_check clk) u uid = None
             \<longrightarrow>
             ((\<exists>msg. fst (attempt_booking s clk uid aid) = Inl (BookingError msg ACTIVITY_FULL))
              \<longleftrightarrow> get_current_capacity a s \<le> get_current_attendees a s))"
proof -
  have cap: "get_current_capacity a s =
           a_base_capacity a
           + 2 * int (length (filter
               (\<lambda>b. b_activity_id b = a_id a \<and> b_status b = CONFIRMED
                    \<and> owner_role s b = Some VOLUNTEER) (bookings s)))"
    using join_count_owner[OF assms,
        of "\<lambda>b. b_activity_id b = a_id a \<and> b_status b = CONFIRMED" "\<lambda>r. r = VOLUNTEER"
           "bookings s"]
    by (simp add: get_current_capacity_def conj_assoc)
  have att: "get_current_attendees a s =
           int (length (filter
               (\<lambda>b. b_activity_id b = a_id a \<and> b_status b = CONFIRMED
                    \<and> (\<exists>r. owner_role s b = Some r \<and> r \<noteq> VOLUNTEER)) (bookings s)))"
    using join_count_owner[OF assms,
        of "\<lambda>b. b_activity_id b = a_id a \<and> b_status b = CONFIRMED" "\<lambda>r. r \<noteq> VOLUNTEER"
           "bookings s"]
    by (simp add: get_current_attendees_def conj_assoc)
  have full: "\<forall>clk uid aid u.
             find (\<lambda>u. u_id u = uid) (users s) = Some u \<and> u_role u \<noteq> VOLUNTEER
             \<and> find (\<lambda>x. a_id x = aid) (activities s) = Some a
             \<and> find (\<lambda>b. b_user_id b = uid \<and> b_activity_id b = aid \<and> b_status b = CONFIRMED)
                  (bookings s) = None
             \<and> check_membership s (t_check clk) u uid = None
             \<longrightarrow>
             ((\<exists>msg. fst (attempt_booking s clk uid aid) = Inl (BookingError msg ACTIVITY_FULL))
              \<longleftrightarrow> get_current_capacity a s \<le> get_current_attendees a s)"
  proof (intro allI impI)
    fix clk :: clock and uid aid u
    assume h: "find (\<lambda>u. u_id u = uid) (users s) = Some u \<and> u_role u \<noteq> VOLUNTEER
             \<and> find (\<lambda>x. a_id x = aid) (activities s) = Some a
             \<and> find (\<lambda>b. b_user_id b = uid \<and> b_activity_id b = aid \<and> b_status b = CONFIRMED)
                  (bookings s) = None
             \<and> check_membership s (t_check clk) u uid = None"
    then have eq: "attempt_booking s clk uid aid =
       (case check_capacity s u a aid of
          Some e \<Rightarrow> (Inl e, s)
        | None \<Rightarrow>
       (case check_medical u a of
          Some e \<Rightarrow> (Inl e, s)
        | None \<Rightarrow> (Inr (fst (create_booking s clk u a uid aid)),
                    s \<lparr> bookings := bookings s @ [new_booking_row s clk uid aid] \<rparr>)))"
      by (simp add: attempt_booking_checks)
    show "(\<exists>msg. fst (attempt_booking s clk uid aid) = Inl (BookingError msg ACTIVITY_FULL))
              \<longleftrightarrow> get_current_capacity a s \<le> get_current_attendees a s"
    proof (cases "get_current_capacity a s \<le> get_current_attendees a s")
      case True
      with h show ?thesis by (simp add: eq check_capacity_participant)
    next
      case False
      with h have "check_capacity s u a aid = None"
        by (simp add: check_capacity_participant)
      with False show ?thesis
        by (auto simp: eq split: option.splits dest: check_medical_codes)
    qed
  qed
  from cap att full show ?thesis by blast
qed

theorem C3_witness:
  "distinct (map u_id (users demo1))
   \<and> get_current_capacity art demo1 = 1 + 2 * 0
   \<and> get_current_attendees art demo1 = 1
   \<and> (\<exists>msg. fst (attempt_booking demo1 demo_clock 2 2) = Inl (BookingError msg ACTIVITY_FULL))"
proof -
  have pk: "distinct (map u_id (users demo1))"
    by (simp add: demo_defs)
  have pre: "find (\<lambda>u. u_id u = 2) (users demo1) = Some bob \<and> u_role bob \<noteq> VOLUNTEER
             \<and> find (\<lambda>x. a_id x = 2) (activities demo1) = Some art
             \<and> find (\<lambda>b. b_user_id b = 2 \<and> b_activity_id b = 2 \<and> b_status b = CONFIRMED)
                  (bookings demo1) = None
             \<and> check_membership demo1 (t_check demo_clock) bob 2 = None"
    by (simp add: demo_defs check_membership_def weekly_bookings_count_def
          get_weekly_token_limit_def)
  have vol: "filter (\<lambda>b. b_activity_id b = a_id art \<and> b_status b = CONFIRMED
                    \<and> owner_role demo1 b = Some VOLUNTEER) (bookings demo1) = []"
    by (simp add: demo_defs owner_role_def)
  have par: "length (filter (\<lambda>b. b_activity_id b = a_id art \<and> b_status b = CONFIRMED
                    \<and> (\<exists>r. owner_role demo1 b = Some r \<and> r \<noteq> VOLUNTEER)) (bookings demo1)) = 1"
    by (simp add: demo_defs owner_role_def)
  have base: "a_base_capacity art = 1"
    by (simp add: art_def)
  from C3_capacity_and_attendees[OF pk, of art] pre vol par base pk
  show ?thesis by (simp del: One_nat_def)
qed

text \<open>
  C4. An attempt by a Volunteer never fails with \<^verbatim>\<open>PAYMENT_REQUIRED\<close>,
  \<^verbatim>\<open>TOKEN_LIMIT_REACHED\<close> or \<^verbatim>\<open>ACTIVITY_FULL\<close>. Let \<open>confirmed_volunteers\<close> be the
  number of Confirmed bookings on the activity whose owner is a Volunteer. With user ids a
  primary key, the activity found and no duplicate, the attempt fails with
  \<^verbatim>\<open>VOLUNTEER_SLOTS_FULL\<close> exactly when that number has reached \<^verbatim>\<open>volunteer_slots\<close>, and
  the message then reports the two numbers; with a free slot and the accessibility check
  passed it succeeds, whatever attendees and capacity are.
\<close>

theorem C4_volunteer_booking:
  assumes "find (\<lambda>u. u_id u = uid) (users s) = Some u" and "u_role u = VOLUNTEER"
    and "confirmed_volunteers = int (length (filter
           (\<lambda>b. b_activity_id b = aid \<and> b_status b = CONFIRMED
                \<and> owner_role s b = Some VOLUNTEER) (bookings s)))"
  shows "(\<forall>msg. fst (attempt_booking s clk uid aid) \<noteq> Inl (BookingError msg PAYMENT_REQUIRED)
               \<and> fst (attempt_booking s clk uid aid) \<noteq> Inl (BookingError msg TOKEN_LIMIT_REACHED)
               \<and> fst (attempt_booking s clk uid aid) \<noteq> Inl (BookingError msg ACTIVITY_FULL))
       \<and> (\<forall>a. distinct (map u_id (users s))
              \<and> find (\<lambda>x. a_id x = aid) (activities s) = Some a
              \<and> find (\<lambda>b. b_user_id b = uid \<and> b_activity_id b = aid \<and> b_status b = CONFIRMED)
                   (bookings s) = None
              \<longrightarrow>
              ((\<exists>msg. fst (attempt_booking s clk uid aid) =
                        Inl (BookingError msg VOLUNTEER_SLOTS_FULL))
               \<longleftrightarrow> a_volunteer_slots a \<le> confirmed_volunteers)
              \<and> (a_volunteer_slots a \<le> confirmed_volunteers
                   \<longrightarrow> attempt_booking s clk uid aid =
                         (Inl (BookingError
                            (''All volunteer slots are filled ('' @ str_int confirmed_volunteers
                               @ ''/'' @ str_int (a_volunteer_slots a) @ '')'')
                            VOLUNTEER_SLOTS_FULL), s))
              \<and> (confirmed_volunteers < a_volunteer_slots a
                   \<and> check_medical u a = None
                   \<longrightarrow> (\<exists>resp s'. attempt_booking s clk uid aid = (Inr resp, s'))))"
proof -
  have never: "\<forall>msg. fst (attempt_booking s clk uid aid) \<noteq> Inl (BookingError msg PAYMENT_REQUIRED)
               \<and> fst (attempt_booking s clk uid aid) \<noteq> Inl (BookingError msg TOKEN_LIMIT_REACHED)
               \<and> fst (attempt_booking s clk uid aid) \<noteq> Inl (BookingError msg ACTIVITY_FULL)"
    using assms(1,2)
    by (auto simp: attempt_booking_def check_membership_volunteer check_capacity_volunteer
             split: option.splits prod.splits if_splits dest: check_medical_codes)
  have slots: "\<forall>a. distinct (map u_id (users s))
              \<and> find (\<lambda>x. a_id x = aid) (activities s) = Some a
              \<and> find (\<lambda>b. b_user_id b = uid \<and> b_activity_id b = aid \<and> b_status b = CONFIRMED)
                   (bookings s) = None
              \<longrightarrow>
              ((\<exists>msg. fst (attempt_booking s clk uid aid) =
                        Inl (BookingError msg VOLUNTEER_SLOTS_FULL))
               \<longleftrightarrow> a_volunteer_slots a \<le> confirmed_volunteers)
              \<and> (a_volunteer_slots a \<le> confirmed_volunteers
                   \<longrightarrow> attempt_booking s clk uid aid =
                         (Inl (BookingError
                            (''All volunteer slots are filled ('' @ str_int confirmed_volunteers
                               @ ''/'' @ str_int (a_volunteer_slots a) @ '')'')
                            VOLUNTEER_SLOTS_FULL), s))
              \<and> (confirmed_volunteers < a_volunteer_slots a
                   \<and> check_medical u a = None
                   \<longrightarrow> (\<exists>resp s'. attempt_booking s clk uid aid = (Inr resp, s')))"
  proof (intro allI impI)
    fix a
    assume h: "distinct (map u_id (users s))
              \<and> find (\<lambda>x. a_id x = aid) (activities s) = Some a
              \<and> find (\<lambda>b. b_user_id b = uid \<and> b_activity_id b = aid \<and> b_status b = CONFIRMED)
                   (bookings s) = None"
    then have cnt: "current_volunteer_count s aid = confirmed_volunteers"
      using assms(3) by (simp add: current_volunteer_count_owner)
    from h assms(1,2) have eq: "attempt_booking s clk uid aid =
       (case check_capacity s u a aid of
          Some e \<Rightarrow> (Inl e, s)
        | None \<Rightarrow>
       (case check_medical u a of
          Some e \<Rightarrow> (Inl e, s)
        | None \<Rightarrow> (Inr (fst (create_booking s clk u a uid aid)),
                    s \<lparr> bookings := bookings s @ [new_booking_row s clk uid aid] \<rparr>)))"
      by (simp add: attempt_booking_checks check_membership_volunteer)
    show "((\<exists>msg. fst (attempt_booking s clk uid aid) =
                        Inl (BookingError msg VOLUNTEER_SLOTS_FULL))
               \<longleftrightarrow> a_volunteer_slots a \<le> confirmed_volunteers)
              \<and> (a_volunteer_slots a \<le> confirmed_volunteers
                   \<longrightarrow> attempt_booking s clk uid aid =
                         (Inl (BookingError
                            (''All volunteer slots are filled ('' @ str_int confirmed_volunteers
                               @ ''/'' @ str_int (a_volunteer_slots a) @ '')'')
                            VOLUNTEER_SLOTS_FULL), s))
              \<and> (confirmed_volunteers < a_volunteer_slots a
                   \<and> check_medical u a = None
                   \<longrightarrow> (\<exists>resp s'. attempt_booking s clk uid aid = (Inr resp, s')))"
    proof (cases "a_volunteer_slots a \<le> confirmed_volunteers")
      case True
      with assms(2) show ?thesis by (simp add: eq check_capacity_volunteer cnt)
    next
      case False
      with assms(2) have "check_capacity s u a aid = None"
        by (simp add: check_capacity_volunteer cnt)
      with False show ?thesis
        by (auto simp: eq split: option.splits dest: check_medical_codes)
    qed
  qed
  from never slots show ?thesis by blast
qed

text \<open>
  Emma (Volunteer) books the art workshop although its one place is taken. Grace
  (Volunteer) is turned away from the music session, whose single volunteer slot is held by
  Emma's Confirmed booking: Grace's own Cancelled booking and Alice's participant booking
  do not count.
\<close>

theorem C4_witness:
  "find (\<lambda>u. u_id u = 5) (users demo1) = Some emma \<and> u_role emma = VOLUNTEER
   \<and> get_current_attendees art demo1 = get_current_capacity art demo1
   \<and> (\<exists>resp s'. attempt_booking demo1 demo_clock 5 2 = (Inr resp, s'))
   \<and> find (\<lambda>u. u_id u = 6) (users demo_vol) = Some grace \<and> u_role grace = VOLUNTEER
   \<and> attempt_booking demo_vol demo_clock 6 4 =
       (Inl (BookingError ''All volunteer slots are filled (1/1)'' VOLUNTEER_SLOTS_FULL),
        demo_vol)"
proof -
  have u: "find (\<lambda>u. u_id u = 5) (users demo1) = Some emma"
    and r: "u_role emma = VOLUNTEER"
    by (simp_all add: demo_defs)
  have n0: "(0::int) = int (length (filter
           (\<lambda>b. b_activity_id b = 2 \<and> b_status b = CONFIRMED
                \<and> owner_role demo1 b = Some VOLUNTEER) (bookings demo1)))"
    by (simp add: demo_defs owner_role_def)
  have pre: "distinct (map u_id (users demo1))
              \<and> find (\<lambda>x. a_id x = 2) (activities demo1) = Some art
              \<and> find (\<lambda>b. b_user_id b = 5 \<and> b_activity_id b = 2 \<and> b_status b = CONFIRMED)
                   (bookings demo1) = None"
    by (simp add: demo_defs)
  have ok: "(0::int) < a_volunteer_slots art \<and> check_medical emma art = None"
    by (simp add: demo_defs check_medical_def)
  from C4_volunteer_booking[OF u r n0, of demo_clock] pre ok
  have free: "\<exists>resp s'. attempt_booking demo1 demo_clock 5 2 = (Inr resp, s')"
    by blast
  have u6: "find (\<lambda>u. u_id u = 6) (users demo_vol) = Some grace"
    and r6: "u_role grace = VOLUNTEER"
    by (simp_all add: demo_defs demo_vol_def grace_def)
  have n1: "(1::int) = int (length (filter
           (\<lambda>b. b_activity_id b = 4 \<and> b_status b = CONFIRMED
                \<and> owner_role demo_vol b = Some VOLUNTEER) (bookings demo_vol)))"
    by (simp add: demo_defs demo_vol_def grace_def owner_role_def)
  have pre6: "distinct (map u_id (users demo_vol))
              \<and> find (\<lambda>x. a_id x = 4) (activities demo_vol) = Some music
              \<and> find (\<lambda>b. b_user_id b = 6 \<and> b_activity_id b = 4 \<and> b_status b = CONFIRMED)
                   (bookings demo_vol) = None"
    by (simp add: demo_defs demo_vol_def grace_def music_def)
  have full: "a_volunteer_slots music \<le> (1::int)"
    by (simp add: music_def)
  have s1: "str_int 1 = ''1''"
    by (simp add: str_int_def str_nat.simps)
  from C4_volunteer_booking[OF u6 r6 n1, of demo_clock] pre6 full
  have "attempt_booking demo_vol demo_clock 6 4 =
          (Inl (BookingError
             (''All volunteer slots are filled ('' @ str_int 1
                @ ''/'' @ str_int (a_volunteer_slots music) @ '')'')
             VOLUNTEER_SLOTS_FULL), demo_vol)"
    by blast
  then have taken: "attempt_booking demo_vol demo_clock 6 4 =
       (Inl (BookingError ''All volunteer slots are filled (1/1)'' VOLUNTEER_SLOTS_FULL),
        demo_vol)"
    by (simp add: s1 music_def)
  from u r free u6 r6 taken show ?thesis
    by (simp add: demo1_art_counts)
qed

text \<open>
  C5. The spec lets \<^verbatim>\<open>is_accessible\<close> answer false also when \<^verbatim>\<open>requirements\<close> is missing
  entirely. On an activity whose \<^verbatim>\<open>requirements\<close> is JSON null the code raises
  \<^verbatim>\<open>AttributeError\<close> instead, and so does the attempt of a wheelchair user (Bob) to book
  it, where the spec expects \<^verbatim>\<open>ACCESSIBILITY_MISMATCH\<close>. (For \<^verbatim>\<open>requirements\<close> that is a
  dict, empty or not, the code answers as the spec says.)
\<close>

theorem C5_null_requirements_raise:
  "is_accessible storeroom = Inl AttributeError
   \<and> attempt_booking demo_null demo_clock 2 3 = (Inl AttributeError, demo_null)"
  by (simp add: demo_defs storeroom_def demo_null_def service_defs)

text \<open>
  C6. The checks run in the order user, activity, duplicate, token, capacity,
  accessibility, and the first one that fails decides the outcome: each error is returned
  under no condition on the checks after it, with the store unchanged. In particular an
  existing Confirmed booking for the pair gives \<^verbatim>\<open>DUPLICATE_BOOKING\<close> whatever the token,
  capacity and accessibility checks would say.
\<close>

theorem C6_check_order:
  "(find (\<lambda>u. u_id u = uid) (users s) = None \<longrightarrow>
      attempt_booking s clk uid aid = (Inl (BookingError ''User not found'' USER_NOT_FOUND), s))
   \<and> (\<forall>u. find (\<lambda>u. u_id u = uid) (users s) = Some u
          \<and> find (\<lambda>a. a_id a = aid) (activities s) = None \<longrightarrow>
      attempt_booking s clk uid aid =
        (Inl (BookingError ''Activity not found'' ACTIVITY_NOT_FOUND), s))
   \<and> (\<forall>u a b. find (\<lambda>u. u_id u = uid) (users s) = Some u
          \<and> find (\<lambda>a. a_id a = aid) (activities s) = Some a
          \<and> b \<in> set (bookings s) \<and> b_user_id b = uid \<and> b_activity_id b = aid
          \<and> b_status b = CONFIRMED \<longrightarrow>
      attempt_booking s clk uid aid =
        (Inl (BookingError ''You have already booked this activity'' DUPLICATE_BOOKING), s))
   \<and> (\<forall>u a. find (\<lambda>u. u_id u = uid) (users s) = Some u
          \<and> find (\<lambda>a. a_id a = aid) (activities s) = Some a
          \<and> find (\<lambda>b. b_user_id b = uid \<and> b_activity_id b = aid \<and> b_status b = CONFIRMED)
               (bookings s) = None \<longrightarrow>
        (\<forall>e. check_membership s (t_check clk) u uid = Some e \<longrightarrow>
           attempt_booking s clk uid aid = (Inl e, s)
           \<and> (\<exists>msg. e = BookingError msg PAYMENT_REQUIRED
                    \<or> e = BookingError msg TOKEN_LIMIT_REACHED))
        \<and> (check_membership s (t_check clk) u uid = None \<longrightarrow>
            (\<forall>e. check_capacity s u a aid = Some e \<longrightarrow>
               attempt_booking s clk uid aid = (Inl e, s)
               \<and> (\<exists>msg. e = BookingError msg VOLUNTEER_SLOTS_FULL
                        \<or> e = BookingError msg ACTIVITY_FULL))
            \<and> (check_capacity s u a aid = None \<longrightarrow>
                (\<forall>e. check_medical u a = Some e \<longrightarrow>
                   attempt_booking s clk uid aid = (Inl e, s)
                   \<and> (e = AttributeError
                      \<or> e = BookingError
                          ''This activity is not wheelchair accessible. Please contact staff for assistance.''
                          ACCESSIBILITY_MISMATCH))
                \<and> (check_medical u a = None \<longrightarrow>
                    (\<exists>resp s'. attempt_booking s clk uid aid = (Inr resp, s'))))))"
proof -
  have p1: "find (\<lambda>u. u_id u = uid) (users s) = None \<longrightarrow>
      attempt_booking s clk uid aid = (Inl (BookingError ''User not found'' USER_NOT_FOUND), s)"
    by (simp add: attempt_booking_def)
  have p2: "\<forall>u. find (\<lambda>u. u_id u = uid) (users s) = Some u
          \<and> find (\<lambda>a. a_id a = aid) (activities s) = None \<longrightarrow>
      attempt_booking s clk uid aid =
        (Inl (BookingError ''Activity not found'' ACTIVITY_NOT_FOUND), s)"
    by (simp add: attempt_booking_def)
  have p3: "\<forall>u a b. find (\<lambda>u. u_id u = uid) (users s) = Some u
          \<and> find (\<lambda>a. a_id a = aid) (activities s) = Some a
          \<and> b \<in> set (bookings s) \<and> b_user_id b = uid \<and> b_activity_id b = aid
          \<and> b_status b = CONFIRMED \<longrightarrow>
      attempt_booking s clk uid aid =
        (Inl (BookingError ''You have already booked this activity'' DUPLICATE_BOOKING), s)"
    by (auto intro!: attempt_booking_duplicate)
  have p4: "\<forall>u a. find (\<lambda>u. u_id u = uid) (users s) = Some u
          \<and> find (\<lambda>a. a_id a = aid) (activities s) = Some a
          \<and> find (\<lambda>b. b_user_id b = uid \<and> b_activity_id b = aid \<and> b_status b = CONFIRMED)
               (bookings s) = None \<longrightarrow>
        (\<forall>e. check_membership s (t_check clk) u uid = Some e \<longrightarrow>
           attempt_booking s clk uid aid = (Inl e, s)
           \<and> (\<exists>msg. e = BookingError msg PAYMENT_REQUIRED
                    \<or> e = BookingError msg TOKEN_LIMIT_REACHED))
        \<and> (check_membership s (t_check clk) u uid = None \<longrightarrow>
            (\<forall>e. check_capacity s u a aid = Some e \<longrightarrow>
               attempt_booking s clk uid aid = (Inl e, s)
               \<and> (\<exists>msg. e = BookingError msg VOLUNTEER_SLOTS_FULL
                        \<or> e = BookingError msg ACTIVITY_FULL))
            \<and> (check_capacity s u a aid = None \<longrightarrow>
                (\<forall>e. check_medical u a = Some e \<longrightarrow>
                   attempt_booking s clk uid aid = (Inl e, s)
                   \<and> (e = AttributeError
                      \<or> e = BookingError
                          ''This activity is not wheelchair accessible. Please contact staff for assistance.''
                          ACCESSIBILITY_MISMATCH))
                \<and> (check_medical u a = None \<longrightarrow>
                    (\<exists>resp s'. attempt_booking s clk uid aid = (Inr resp, s')))))"
  proof (intro allI impI)
    fix u a
    assume h: "find (\<lambda>u. u_id u = uid) (users s) = Some u
          \<and> find (\<lambda>a. a_id a = aid) (activities s) = Some a
          \<and> find (\<lambda>b. b_user_id b = uid \<and> b_activity_id b = aid \<and> b_status b = CONFIRMED)
               (bookings s) = None"
    note eq = attempt_booking_checks[of uid s u aid a clk]
    have m: "\<forall>e. check_membership s (t_check clk) u uid = Some e \<longrightarrow>
           attempt_booking s clk uid aid = (Inl e, s)
           \<and> (\<exists>msg. e = BookingError msg PAYMENT_REQUIRED
                    \<or> e = BookingError msg TOKEN_LIMIT_REACHED)"
      using h eq by (auto dest: check_membership_codes)
    have c: "check_membership s (t_check clk) u uid = None \<longrightarrow>
            (\<forall>e. check_capacity s u a aid = Some e \<longrightarrow>
               attempt_booking s clk uid aid = (Inl e, s)
               \<and> (\<exists>msg. e = BookingError msg VOLUNTEER_SLOTS_FULL
                        \<or> e = BookingError msg ACTIVITY_FULL))"
      using h eq by (auto dest: check_capacity_codes)
    have d: "check_membership s (t_check clk) u uid = None \<longrightarrow>
             check_capacity s u a aid = None \<longrightarrow>
                (\<forall>e. check_medical u a = Some e \<longrightarrow>
                   attempt_booking s clk uid aid = (Inl e, s)
                   \<and> (e = AttributeError
                      \<or> e = BookingError
                          ''This activity is not wheelchair accessible. Please contact staff for assistance.''
                          ACCESSIBILITY_MISMATCH))
                \<and> (check_medical u a = None \<longrightarrow>
                    (\<exists>resp s'. attempt_booking s clk uid aid = (Inr resp, s')))"
      using h eq by (auto dest: check_medical_codes)
    from m c d show "(\<forall>e. check_membership s (t_check clk) u uid = Some e \<longrightarrow>
           attempt_booking s clk uid aid = (Inl e, s)
           \<and> (\<exists>msg. e = BookingError msg PAYMENT_REQUIRED
                    \<or> e = BookingError msg TOKEN_LIMIT_REACHED))
        \<and> (check_membership s (t_check clk) u uid = None \<longrightarrow>
            (\<forall>e. check_capacity s u a aid = Some e \<longrightarrow>
               attempt_booking s clk uid aid = (Inl e, s)
               \<and> (\<exists>msg. e = BookingError msg VOLUNTEER_SLOTS_FULL
                        \<or> e = BookingError msg ACTIVITY_FULL))
            \<and> (check_capacity s u a aid = None \<longrightarrow>
                (\<forall>e. check_medical u a = Some e \<longrightarrow>
                   attempt_booking s clk uid aid = (Inl e, s)
                   \<and> (e = AttributeError
                      \<or> e = BookingError
                          ''This activity is not wheelchair accessible. Please contact staff for assistance.''
                          ACCESSIBILITY_MISMATCH))
                \<and> (check_medical u a = None \<longrightarrow>
                    (\<exists>resp s'. attempt_booking s clk uid aid = (Inr resp, s')))))"
      by blast
  qed
  from p1 p2 p3 p4 show ?thesis by blast
qed

text \<open>
  Alice books the art workshop a second time: her token is used up and the workshop is
  full, and the answer is still \<^verbatim>\<open>DUPLICATE_BOOKING\<close>.
\<close>

theorem C6_witness:
  "check_membership demo1 (t_check demo_clock) alice 1 \<noteq> None
   \<and> check_capacity demo1 alice art 2 \<noteq> None
   \<and> attempt_booking demo1 demo_clock 1 2 =
       (Inl (BookingError ''You have already booked this activity'' DUPLICATE_BOOKING), demo1)"
proof -
  have m: "check_membership demo1 (t_check demo_clock) alice 1 \<noteq> None"
    by (simp add: demo_defs check_membership_def weekly_bookings_count_def
          get_week_start_end_def weekday_def day_us_def get_weekly_token_limit_def)
  have c: "check_capacity demo1 alice art 2 \<noteq> None"
  proof -
    have "u_role alice \<noteq> VOLUNTEER" by (simp add: alice_def)
    then show ?thesis by (simp add: check_capacity_participant demo1_art_counts)
  qed
  have pre: "find (\<lambda>u. u_id u = 1) (users demo1) = Some alice
          \<and> find (\<lambda>a. a_id a = 2) (activities demo1) = Some art
          \<and> hd (bookings demo1) \<in> set (bookings demo1) \<and> b_user_id (hd (bookings demo1)) = 1
          \<and> b_activity_id (hd (bookings demo1)) = 2
          \<and> b_status (hd (bookings demo1)) = CONFIRMED"
    by (simp add: demo_defs)
  from C6_check_order[of 1 demo1 demo_clock 2] pre
  have "attempt_booking demo1 demo_clock 1 2 =
       (Inl (BookingError ''You have already booked this activity'' DUPLICATE_BOOKING), demo1)"
    by blast
  with m c show ?thesis by simp
qed

text \<open>
  C7. In a reachable state, cancelling a Confirmed booking with its owner's id succeeds;
  afterwards an attempt for the same (user, activity) does not fail with
  \<^verbatim>\<open>DUPLICATE_BOOKING\<close>, the attendee, capacity, volunteer and weekly counts are those of the
  store without the cancelled booking, and the attempt succeeds whenever the token,
  capacity and accessibility checks pass.
\<close>

theorem C7_cancel_then_rebook:
  assumes "bookings s0 = []" and "reachable s0 s"
    and "b \<in> set (bookings s)" and "b_status b = CONFIRMED"
  shows "\<exists>s' u a.
           cancel_booking s now (b_id b) (b_user_id b) = (Inr (b_id b), s')
         \<and> find (\<lambda>u. u_id u = b_user_id b) (users s') = Some u
         \<and> find (\<lambda>a. a_id a = b_activity_id b) (activities s') = Some a
         \<and> (\<forall>clk msg. fst (attempt_booking s' clk (b_user_id b) (b_activity_id b))
                         \<noteq> Inl (BookingError msg DUPLICATE_BOOKING))
         \<and> bookings (drop_booking s (b_id b)) = removeAll b (bookings s)
         \<and> (\<forall>x. get_current_attendees x s' = get_current_attendees x (drop_booking s (b_id b))
                \<and> get_current_capacity x s' = get_current_capacity x (drop_booking s (b_id b))
                \<and> current_volunteer_count s' (a_id x) =
                    current_volunteer_count (drop_booking s (b_id b)) (a_id x))
         \<and> (\<forall>uid t. weekly_bookings_count s' uid t =
                      weekly_bookings_count (drop_booking s (b_id b)) uid t)
         \<and> (\<forall>clk. check_membership s' (t_check clk) u (b_user_id b) = None
                  \<and> check_capacity s' u a (b_activity_id b) = None
                  \<and> check_medical u a = None
                  \<longrightarrow> (\<exists>resp s''. attempt_booking s' clk (b_user_id b) (b_activity_id b) =
                                   (Inr resp, s'')))"
proof -
  define s' where "s' = s \<lparr> bookings := map (cancel_row now (b_id b)) (bookings s) \<rparr>"
  have c: "consistent s"
    using assms(1,2) by (simp add: reachable_consistent)
  then have ids: "distinct (map b_id (bookings s))"
    and pairs: "distinct (confirmed_pairs (bookings s))"
    by (simp_all add: consistent_def)
  from c assms(3) obtain u a where
    u: "find (\<lambda>u. u_id u = b_user_id b) (users s) = Some u" and
    a: "find (\<lambda>a. a_id a = b_activity_id b) (activities s) = Some a"
    by (auto simp: consistent_def)
  have f: "find (\<lambda>x. b_id x = b_id b \<and> b_user_id x = b_user_id b) (bookings s) = Some b"
    using ids assms(3) by (rule find_by_id)
  have cancel: "cancel_booking s now (b_id b) (b_user_id b) = (Inr (b_id b), s')"
    using f assms(4) by (simp add: cancel_booking_def s'_def cancel_row_def)
  have u': "find (\<lambda>u. u_id u = b_user_id b) (users s') = Some u"
    and a': "find (\<lambda>a. a_id a = b_activity_id b) (activities s') = Some a"
    using u a by (simp_all add: s'_def)
  have "(b_user_id b, b_activity_id b) \<notin> set (confirmed_pairs (bookings s'))"
  proof
    have "confirmed_pairs (bookings s') =
          confirmed_pairs (filter (\<lambda>x. b_id x \<noteq> b_id b) (bookings s))"
      by (simp add: s'_def confirmed_pairs_cancel_row)
    moreover assume "(b_user_id b, b_activity_id b) \<in> set (confirmed_pairs (bookings s'))"
    ultimately have "(b_user_id b, b_activity_id b)
        \<in> set (confirmed_pairs (filter (\<lambda>x. b_id x \<noteq> b_id b) (bookings s)))"
      by simp
    then obtain x where x: "x \<in> set (bookings s)" "b_id x \<noteq> b_id b"
      "b_status x = CONFIRMED" "b_user_id x = b_user_id b" "b_activity_id x = b_activity_id b"
      by (auto simp: confirmed_pairs_def)
    with pairs assms(3,4) have "x = b"
      by (intro confirmed_pair_unique[of "bookings s"]) simp_all
    with x(2) show False by simp
  qed
  then have nodup: "find (\<lambda>x. b_user_id x = b_user_id b \<and> b_activity_id x = b_activity_id b
                           \<and> b_status x = CONFIRMED) (bookings s') = None"
    by (simp add: find_dup_None_pairs)
  note eq = attempt_booking_checks[OF u' a' nodup]
  have notdup: "\<forall>clk msg. fst (attempt_booking s' clk (b_user_id b) (b_activity_id b))
                         \<noteq> Inl (BookingError msg DUPLICATE_BOOKING)"
    by (auto simp: eq split: option.splits
             dest: check_membership_codes check_capacity_codes check_medical_codes)
  have rem: "bookings (drop_booking s (b_id b)) = removeAll b (bookings s)"
    using ids assms(3) by (rule drop_booking_removeAll)
  have counts: "\<forall>x. get_current_attendees x s' = get_current_attendees x (drop_booking s (b_id b))
                \<and> get_current_capacity x s' = get_current_capacity x (drop_booking s (b_id b))
                \<and> current_volunteer_count s' (a_id x) =
                    current_volunteer_count (drop_booking s (b_id b)) (a_id x)"
    using cancel_counts[OF s'_def] by blast
  have weekly: "\<forall>uid t. weekly_bookings_count s' uid t =
                      weekly_bookings_count (drop_booking s (b_id b)) uid t"
    using cancel_weekly_count[OF s'_def] by blast
  have ok: "\<forall>clk. check_membership s' (t_check clk) u (b_user_id b) = None
                  \<and> check_capacity s' u a (b_activity_id b) = None
                  \<and> check_medical u a = None
                  \<longrightarrow> (\<exists>resp s''. attempt_booking s' clk (b_user_id b) (b_activity_id b) =
                                   (Inr resp, s''))"
    by (simp add: eq)
  from cancel u' a' notdup rem counts weekly ok show ?thesis by blast
qed

theorem C7_witness:
  "bookings demo0 = [] \<and> reachable demo0 demo1
   \<and> booking1 \<in> set (bookings demo1) \<and> b_status booking1 = CONFIRMED
   \<and> cancel_booking demo1 900000000000 1 1 = (Inr 1, demo2)
   \<and> (\<exists>resp s''. attempt_booking demo2 demo_clock 1 2 = (Inr resp, s''))"
proof -
  have e: "bookings demo0 = []" by (simp add: demo0_def)
  have m: "booking1 \<in> set (bookings demo1)" and st: "b_status booking1 = CONFIRMED"
    by (simp_all add: demo_defs)
  have ids: "b_id booking1 = 1" "b_user_id booking1 = 1" "b_activity_id booking1 = 2"
    by (simp_all add: booking1_def)
  from C7_cancel_then_rebook[OF e demo1_reachable m st, of 900000000000]
  obtain s' u a where
    c: "cancel_booking demo1 900000000000 1 1 = (Inr 1, s')" and
    u: "find (\<lambda>u. u_id u = 1) (users s') = Some u" and
    a: "find (\<lambda>a. a_id a = 2) (activities s') = Some a" and
    ok: "\<forall>clk. check_membership s' (t_check clk) u 1 = None
                  \<and> check_capacity s' u a 2 = None
                  \<and> check_medical u a = None
                  \<longrightarrow> (\<exists>resp s''. attempt_booking s' clk 1 2 = (Inr resp, s''))"
    unfolding ids by blast
  from c have s': "s' = demo2" by (simp add: demo1_cancel)
  from u have u': "u = alice" by (simp add: s' demo_defs)
  from a have a': "a = art" by (simp add: s' demo_defs)
  have "check_membership demo2 (t_check demo_clock) alice 1 = None"
    by (simp add: demo_defs check_membership_def weekly_bookings_count_def
          get_weekly_token_limit_def)
  moreover have "check_capacity demo2 alice art 2 = None"
    by (simp add: demo_defs check_capacity_def get_current_capacity_def
          get_current_attendees_def join_User_def)
  moreover have "check_medical alice art = None"
    by (simp add: demo_defs check_medical_def)
  ultimately have "\<exists>resp s''. attempt_booking demo2 demo_clock 1 2 = (Inr resp, s'')"
    using ok by (simp add: s' u' a')
  with e demo1_reachable m st demo1_cancel show ?thesis by simp
qed

text \<open>
  C8. The weekly token limit is 0 for Adhoc, 1 for Weekly\_1, 2 for Weekly\_2 and the
  infinite sentinel for Unlimited.
\<close>

theorem C8_weekly_token_limit_table:
  "get_weekly_token_limit (u \<lparr> u_membership_tier := ADHOC \<rparr>) = PyInt 0
   \<and> get_weekly_token_limit (u \<lparr> u_membership_tier := WEEKLY_1 \<rparr>) = PyInt 1
   \<and> get_weekly_token_limit (u \<lparr> u_membership_tier := WEEKLY_2 \<rparr>) = PyInt 2
   \<and> get_weekly_token_limit (u \<lparr> u_membership_tier := UNLIMITED \<rparr>) = PyInf"
  by (simp add: get_weekly_token_limit_def)

text \<open>
  C9. In every state reachable from a store without bookings, every booking is Confirmed
  or Cancelled; a call of \<^verbatim>\<open>attempt_booking\<close> leaves the bookings alone or appends one
  Confirmed booking; a call of \<^verbatim>\<open>cancel_booking\<close> leaves them alone or turns the Confirmed
  booking of the given id into a Cancelled one. Nothing assigns Waitlist.
\<close>

theorem C9_status_lifecycle:
  assumes "bookings s0 = []" and "reachable s0 s"
  shows "(\<forall>b \<in> set (bookings s). b_status b = CONFIRMED \<or> b_status b = CANCELLED)
       \<and> (\<forall>clk uid aid r s'. attempt_booking s clk uid aid = (r, s') \<longrightarrow>
            bookings s' = bookings s
            \<or> (\<exists>nb. bookings s' = bookings s @ [nb] \<and> b_status nb = CONFIRMED))
       \<and> (\<forall>now bid uid r s'. cancel_booking s now bid uid = (r, s') \<longrightarrow>
            bookings s' = bookings s
            \<or> bookings s' =
                 map (\<lambda>b. if b_id b = bid \<and> b_status b = CONFIRMED
                          then b \<lparr> b_status := CANCELLED, b_updated_at := now \<rparr> else b)
                     (bookings s))"
proof -
  have c: "consistent s"
    using assms by (simp add: reachable_consistent)
  have st: "\<forall>b \<in> set (bookings s). b_status b = CONFIRMED \<or> b_status b = CANCELLED"
  proof
    fix b assume "b \<in> set (bookings s)"
    with c have "b_status b \<noteq> WAITLIST" by (simp add: consistent_def)
    then show "b_status b = CONFIRMED \<or> b_status b = CANCELLED"
      by (cases "b_status b") simp_all
  qed
  have bk: "\<forall>clk uid aid r s'. attempt_booking s clk uid aid = (r, s') \<longrightarrow>
            bookings s' = bookings s
            \<or> (\<exists>nb. bookings s' = bookings s @ [nb] \<and> b_status nb = CONFIRMED)"
  proof (intro allI impI)
    fix clk uid aid r s'
    assume a: "attempt_booking s clk uid aid = (r, s')"
    show "bookings s' = bookings s
            \<or> (\<exists>nb. bookings s' = bookings s @ [nb] \<and> b_status nb = CONFIRMED)"
    proof (cases r)
      case (Inl e)
      with a show ?thesis by (auto dest: attempt_booking_error_unchanged)
    next
      case (Inr resp)
      with a have "bookings s' = bookings s @ [new_booking_row s clk uid aid]"
        by (auto dest!: attempt_booking_success)
      moreover have "b_status (new_booking_row s clk uid aid) = CONFIRMED"
        by (simp add: new_booking_row_def)
      ultimately show ?thesis by blast
    qed
  qed
  have cn: "\<forall>now bid uid r s'. cancel_booking s now bid uid = (r, s') \<longrightarrow>
            bookings s' = bookings s
            \<or> bookings s' =
                 map (\<lambda>b. if b_id b = bid \<and> b_status b = CONFIRMED
                          then b \<lparr> b_status := CANCELLED, b_updated_at := now \<rparr> else b)
                     (bookings s)"
  proof (intro allI impI)
    fix now bid uid r s'
    assume a: "cancel_booking s now bid uid = (r, s')"
    show "bookings s' = bookings s
            \<or> bookings s' =
                 map (\<lambda>b. if b_id b = bid \<and> b_status b = CONFIRMED
                          then b \<lparr> b_status := CANCELLED, b_updated_at := now \<rparr> else b)
                     (bookings s)"
    proof (cases r)
      case (Inl e)
      with a show ?thesis by (auto dest: cancel_booking_error_unchanged)
    next
      case (Inr k)
      with a obtain b where
        f: "find (\<lambda>b. b_id b = bid \<and> b_user_id b = uid) (bookings s) = Some b" and
        nc: "b_status b \<noteq> CANCELLED" and
        s': "s' = s \<lparr> bookings := map (cancel_row now bid) (bookings s) \<rparr>"
        by (auto dest!: cancel_booking_success)
      from f have bm: "b \<in> set (bookings s)" and bi: "b_id b = bid"
        by (auto dest: find_Some_set)
      have "\<forall>x \<in> set (bookings s). b_id x = bid \<longrightarrow> b_status x = CONFIRMED"
      proof (intro ballI impI)
        fix x assume x: "x \<in> set (bookings s)" and xi: "b_id x = bid"
        from c have "distinct (map b_id (bookings s))" by (simp add: consistent_def)
        from distinct_map_eq[OF this x bm] xi bi have "x = b" by simp
        with st bm nc show "b_status x = CONFIRMED" by auto
      qed
      then have "map (cancel_row now bid) (bookings s) =
                 map (\<lambda>b. if b_id b = bid \<and> b_status b = CONFIRMED
                          then b \<lparr> b_status := CANCELLED, b_updated_at := now \<rparr> else b)
                     (bookings s)"
        by (auto simp: cancel_row_def)
      with s' show ?thesis by simp
    qed
  qed
  from st bk cn show ?thesis by blast
qed

theorem C9_witness:
  "bookings demo0 = [] \<and> reachable demo0 demo1
   \<and> (b_status booking1 = CONFIRMED \<or> b_status booking1 = CANCELLED)
   \<and> (bookings demo2 = bookings demo1
      \<or> bookings demo2 =
           map (\<lambda>b. if b_id b = 1 \<and> b_status b = CONFIRMED
                    then b \<lparr> b_status := CANCELLED, b_updated_at := 900000000000 \<rparr> else b)
               (bookings demo1))"
proof -
  have e: "bookings demo0 = []" by (simp add: demo0_def)
  have m: "booking1 \<in> set (bookings demo1)"
    by (simp add: demo1_def)
  from C9_status_lifecycle[OF e demo1_reachable] m e demo1_reachable demo1_cancel
  show ?thesis by blast
qed

text \<open>
  C10. Whenever \<^verbatim>\<open>attempt_booking\<close> ends with an error, of any kind, the store it leaves
  behind is the store it started from.
\<close>

theorem C10_failure_leaves_state:
  "fst (attempt_booking s clk uid aid) = Inl e \<Longrightarrow> snd (attempt_booking s clk uid aid) = s"
  by (cases "attempt_booking s clk uid aid") (auto dest: attempt_booking_error_unchanged)

theorem C10_witness:
  "fst (attempt_booking demo1 demo_clock 1 1) =
     Inl (BookingError ''Weekly Token Limit Reached. You have used 1/1 tokens this week.''
        TOKEN_LIMIT_REACHED)
   \<and> snd (attempt_booking demo1 demo_clock 1 1) = demo1"
proof -
  have f: "fst (attempt_booking demo1 demo_clock 1 1) =
     Inl (BookingError ''Weekly Token Limit Reached. You have used 1/1 tokens this week.''
        TOKEN_LIMIT_REACHED)"
    by (simp add: demo1_rebook)
  from f C10_failure_leaves_state[OF f] show ?thesis by simp
qed

end
